theory Spec2Isabelle
  imports Main "HOL-Library.AList" "HOL-Library.Sublist"
begin

section \<open>Plugin environment parsing (process/plugin.go)\<close>

text \<open>
  Go strings are byte sequences; \<open>string\<close> (a list of 8-bit characters) models them
  byte for byte. \<open>strings.TrimSpace\<close> removes leading and trailing runes for which
  \<open>unicode.IsSpace\<close> holds. Such a rune stands at the start (at the end) of a string
  exactly when the string starts (ends) with the rune's UTF-8 encoding, so the table
  \<open>spaceRunes\<close> lists those encodings: tab, LF, VT, FF, CR, space, U+0085, U+00A0,
  U+1680, U+2000 .. U+200A, U+2028, U+2029, U+202F, U+205F and U+3000.
\<close>


definition spaceRunes :: "string list" where
  "spaceRunes =
    [[CHR 0x09], [CHR 0x0A], [CHR 0x0B], [CHR 0x0C], [CHR 0x0D], [CHR 0x20],
     [CHR 0xC2, CHR 0x85], [CHR 0xC2, CHR 0xA0],
     [CHR 0xE1, CHR 0x9A, CHR 0x80],
     [CHR 0xE2, CHR 0x80, CHR 0x80], [CHR 0xE2, CHR 0x80, CHR 0x81],
     [CHR 0xE2, CHR 0x80, CHR 0x82], [CHR 0xE2, CHR 0x80, CHR 0x83],
     [CHR 0xE2, CHR 0x80, CHR 0x84], [CHR 0xE2, CHR 0x80, CHR 0x85],
     [CHR 0xE2, CHR 0x80, CHR 0x86], [CHR 0xE2, CHR 0x80, CHR 0x87],
     [CHR 0xE2, CHR 0x80, CHR 0x88], [CHR 0xE2, CHR 0x80, CHR 0x89],
     [CHR 0xE2, CHR 0x80, CHR 0x8A], [CHR 0xE2, CHR 0x80, CHR 0xA8],
     [CHR 0xE2, CHR 0x80, CHR 0xA9], [CHR 0xE2, CHR 0x80, CHR 0xAF],
     [CHR 0xE2, CHR 0x81, CHR 0x9F], [CHR 0xE3, CHR 0x80, CHR 0x80]]"

definition leadingSpace :: "string \<Rightarrow> string option" where
  "leadingSpace s = List.find (\<lambda>p. prefix p s) spaceRunes"

definition trailingSpace :: "string \<Rightarrow> string option" where
  "trailingSpace s = List.find (\<lambda>p. suffix p s) spaceRunes"

lemma spaceRunes_nonempty: "p \<in> set spaceRunes \<Longrightarrow> p \<noteq> []"
  by (auto simp: spaceRunes_def)

lemma spaceRunes_no_eq: "p \<in> set spaceRunes \<Longrightarrow> CHR ''='' \<notin> set p"
  by (auto simp: spaceRunes_def)

lemma leadingSpace_Some: "leadingSpace s = Some p \<Longrightarrow> p \<noteq> [] \<and> length p \<le> length s"
  unfolding leadingSpace_def find_Some_iff
  by (metis nth_mem spaceRunes_nonempty prefix_length_le)

lemma trailingSpace_Some: "trailingSpace s = Some p \<Longrightarrow> p \<noteq> [] \<and> length p \<le> length s"
  unfolding trailingSpace_def find_Some_iff
  by (metis nth_mem spaceRunes_nonempty suffix_length_le)

function TrimLeft :: "string \<Rightarrow> string" where
  "TrimLeft s =
     (case leadingSpace s of None \<Rightarrow> s
      | Some p \<Rightarrow> TrimLeft (drop (length p) s))"
  by pat_completeness auto
termination
proof (relation "measure length")
  show "wf (measure length)" by simp
next
  fix s p assume "leadingSpace s = Some p"
  from leadingSpace_Some [OF this] show "(drop (length p) s, s) \<in> measure length"
    by (cases p) auto
qed

function TrimRight :: "string \<Rightarrow> string" where
  "TrimRight s =
     (case trailingSpace s of None \<Rightarrow> s
      | Some p \<Rightarrow> TrimRight (take (length s - length p) s))"
  by pat_completeness auto
termination
proof (relation "measure length")
  show "wf (measure length)" by simp
next
  fix s p assume "trailingSpace s = Some p"
  from trailingSpace_Some [OF this] show "(take (length s - length p) s, s) \<in> measure length"
    by (cases p) auto
qed

definition TrimSpace :: "string \<Rightarrow> string" where
  "TrimSpace s = TrimRight (TrimLeft s)"

definition SplitN2 :: "string \<Rightarrow> string list" where
  "SplitN2 s =
     (if CHR ''='' \<in> set s
      then [takeWhile (\<lambda>c. c \<noteq> CHR ''='') s, tl (dropWhile (\<lambda>c. c \<noteq> CHR ''='') s)]
      else [s])"

fun ParseEnv_loop :: "string list \<Rightarrow> (string \<times> string) list \<Rightarrow> (string \<times> string) list" where
  "ParseEnv_loop [] envVars = envVars"
| "ParseEnv_loop (envVarStr # raw) envVars =
     (let envVarStr = TrimSpace envVarStr in
      if envVarStr = [] then ParseEnv_loop raw envVars
      else
        let parts = SplitN2 envVarStr;
            parts = (if length parts = 1 then parts @ [[]] else parts)
        in ParseEnv_loop raw (AList.update (parts ! 0) (parts ! 1) envVars))"

definition ParseEnv :: "string list \<Rightarrow> (string \<times> string) list option" where
  "ParseEnv raw =
     (let envVars = ParseEnv_loop raw [] in
      if length envVars = 0 then None else Some envVars)"

definition UnparseEnv :: "(string \<times> string) list \<Rightarrow> string list" where
  "UnparseEnv env = map (\<lambda>(k, v). k @ ''='' @ v) env"




text \<open>
  The entries for which the round trip is claimed: the keys of a Go map are distinct;
  every key is non-empty, has no \<open>=\<close> and no leading or trailing white space; no value
  has trailing white space.
\<close>
definition envOK :: "(string \<times> string) list \<Rightarrow> bool" where
  "envOK env \<longleftrightarrow>
     distinct (map fst env) \<and>
     (\<forall>(k, v)\<in>set env.
        k \<noteq> [] \<and> CHR ''='' \<notin> set k \<and> leadingSpace k = None \<and> trailingSpace k = None \<and>
        trailingSpace v = None)"

lemma leadingSpace_None_iff: "leadingSpace s = None \<longleftrightarrow> (\<forall>p\<in>set spaceRunes. \<not> prefix p s)"
  by (auto simp: leadingSpace_def find_None_iff)

lemma trailingSpace_None_iff: "trailingSpace s = None \<longleftrightarrow> (\<forall>p\<in>set spaceRunes. \<not> suffix p s)"
  by (auto simp: trailingSpace_def find_None_iff)

lemma leadingSpace_entry:
  assumes "leadingSpace k = None" and "k \<noteq> []"
  shows "leadingSpace (k @ CHR ''='' # v) = None"
  unfolding leadingSpace_None_iff
proof (intro ballI notI)
  fix p assume p: "p \<in> set spaceRunes" and pre: "prefix p (k @ CHR ''='' # v)"
  from assms(1) p have nk: "\<not> prefix p k" by (simp add: leadingSpace_None_iff)
  with pre obtain us where us: "p = k @ us" "prefix us (CHR ''='' # v)"
    by (auto simp: prefix_append)
  from nk us(1) have "us \<noteq> []" by auto
  with us(2) have "CHR ''='' \<in> set us" by (cases us) (auto simp: prefix_Cons)
  with us(1) have "CHR ''='' \<in> set p" by simp
  with spaceRunes_no_eq [OF p] show False by simp
qed

lemma trailingSpace_entry:
  assumes "trailingSpace v = None"
  shows "trailingSpace (k @ CHR ''='' # v) = None"
  unfolding trailingSpace_None_iff
proof (intro ballI notI)
  fix p assume p: "p \<in> set spaceRunes" and suf: "suffix p (k @ CHR ''='' # v)"
  from assms p have nv: "\<not> suffix p v" by (simp add: trailingSpace_None_iff)
  from suf have "suffix p ((k @ [CHR ''='']) @ v)" by simp
  with nv obtain zs where zs: "p = zs @ v" "suffix zs (k @ [CHR ''=''])"
    unfolding suffix_append by blast
  from nv zs(1) have "zs \<noteq> []" by auto
  with zs(2) have "CHR ''='' \<in> set zs"
    by (cases zs rule: rev_cases) auto
  with zs(1) have "CHR ''='' \<in> set p" by simp
  with spaceRunes_no_eq [OF p] show False by simp
qed

lemma TrimSpace_entry:
  assumes "leadingSpace k = None" and "k \<noteq> []" and "trailingSpace v = None"
  shows "TrimSpace (k @ CHR ''='' # v) = k @ CHR ''='' # v"
  using leadingSpace_entry [OF assms(1,2)] trailingSpace_entry [OF assms(3)]
  by (simp add: TrimSpace_def)

lemma SplitN2_entry:
  assumes "CHR ''='' \<notin> set k"
  shows "SplitN2 (k @ CHR ''='' # v) = [k, v]"
proof -
  from assms have k: "\<forall>c\<in>set k. c \<noteq> CHR ''=''" by auto
  then have "takeWhile (\<lambda>c. c \<noteq> CHR ''='') (k @ CHR ''='' # v) = k"
    by (simp add: takeWhile_append2)
  moreover from k have "dropWhile (\<lambda>c. c \<noteq> CHR ''='') (k @ CHR ''='' # v) = CHR ''='' # v"
    by (simp add: dropWhile_append2)
  ultimately show ?thesis by (simp add: SplitN2_def)
qed

lemma ParseEnv_loop_entry:
  assumes "leadingSpace k = None" and "k \<noteq> []" and "trailingSpace v = None"
    and "CHR ''='' \<notin> set k"
  shows "ParseEnv_loop ((k @ CHR ''='' # v) # raw) acc = ParseEnv_loop raw (AList.update k v acc)"
  using TrimSpace_entry [OF assms(1-3)] SplitN2_entry [OF assms(4)]
  by (simp add: Let_def)

lemma map_of_fold_update:
  "map_of (fold (\<lambda>(k, v). AList.update k v) env acc) = map_of acc ++ map_of (rev env)"
  by (induction env arbitrary: acc) (auto simp: AList.update_conv' map_add_upd_left)

lemma map_of_rev_distinct: "distinct (map fst xs) \<Longrightarrow> map_of (rev xs) = map_of xs"
  by (induction xs) (auto simp: map_add_upd_left dom_map_of_conv_image_fst map_add_comm)

lemma fold_update_nonempty: "acc \<noteq> [] \<Longrightarrow> fold (\<lambda>(k, v). AList.update k v) env acc \<noteq> []"
  by (induction env arbitrary: acc) (auto simp: split_def)


lemma ParseEnv_loop_UnparseEnv:
  assumes "\<forall>(k, v)\<in>set env.
        k \<noteq> [] \<and> CHR ''='' \<notin> set k \<and> leadingSpace k = None \<and> trailingSpace k = None \<and>
        trailingSpace v = None"
  shows "ParseEnv_loop (UnparseEnv env) acc = fold (\<lambda>(k, v). AList.update k v) env acc"
  using assms
proof (induction env arbitrary: acc)
  case Nil
  then show ?case by (simp add: UnparseEnv_def)
next
  case (Cons e env)
  obtain k v where e: "e = (k, v)" by (cases e)
  from Cons.prems e have kv: "leadingSpace k = None" "k \<noteq> []" "trailingSpace v = None" "CHR ''='' \<notin> set k"
    by auto
  from Cons.prems have rest: "\<forall>(k, v)\<in>set env.
        k \<noteq> [] \<and> CHR ''='' \<notin> set k \<and> leadingSpace k = None \<and> trailingSpace k = None \<and>
        trailingSpace v = None" by simp
  have "ParseEnv_loop (UnparseEnv (e # env)) acc
        = ParseEnv_loop ((k @ CHR ''='' # v) # UnparseEnv env) acc"
    by (simp add: UnparseEnv_def e)
  also have "\<dots> = ParseEnv_loop (UnparseEnv env) (AList.update k v acc)"
    by (rule ParseEnv_loop_entry [OF kv])
  also have "\<dots> = fold (\<lambda>(k, v). AList.update k v) env (AList.update k v acc)"
    by (rule Cons.IH [OF rest])
  finally show ?case by (simp add: e)
qed

lemma ParseEnv_loop_append:
  "ParseEnv_loop (xs @ ys) acc = ParseEnv_loop ys (ParseEnv_loop xs acc)"
  by (induction xs arbitrary: acc) (simp_all add: Let_def)

lemma ParseEnv_loop_filter_blank:
  "ParseEnv_loop (filter (\<lambda>e. TrimSpace e \<noteq> []) raw) acc = ParseEnv_loop raw acc"
  by (induction raw arbitrary: acc) (simp_all add: Let_def)

lemma ParseEnv_loop_no_eq:
  assumes "TrimSpace e \<noteq> []" and "CHR ''='' \<notin> set (TrimSpace e)"
  shows "ParseEnv_loop (e # raw) acc = ParseEnv_loop raw (AList.update (TrimSpace e) [] acc)"
  using assms by (simp add: Let_def SplitN2_def)

lemma ParseEnv_UnparseEnv_map:
  assumes "envOK env"
  shows "map_option map_of (ParseEnv (UnparseEnv env)) = (if env = [] then None else Some (map_of env))"
proof -
  from assms have ok: "\<forall>(k, v)\<in>set env.
        k \<noteq> [] \<and> CHR ''='' \<notin> set k \<and> leadingSpace k = None \<and> trailingSpace k = None \<and>
        trailingSpace v = None" and d: "distinct (map fst env)"
    by (simp_all add: envOK_def)
  have loop: "ParseEnv_loop (UnparseEnv env) [] = fold (\<lambda>(k, v). AList.update k v) env []"
    by (rule ParseEnv_loop_UnparseEnv [OF ok])
  show ?thesis
  proof (cases env)
    case Nil
    then show ?thesis by (simp add: ParseEnv_def UnparseEnv_def)
  next
    case (Cons e env')
    obtain k v where e: "e = (k, v)" by (cases e)
    have "fold (\<lambda>(k, v). AList.update k v) env [] = fold (\<lambda>(k, v). AList.update k v) env' [(k, v)]"
      by (simp add: Cons e)
    moreover have "\<dots> \<noteq> []" by (rule fold_update_nonempty) simp
    ultimately have ne: "ParseEnv_loop (UnparseEnv env) [] \<noteq> []" using loop by simp
    have "map_of (ParseEnv_loop (UnparseEnv env) []) = map_of env"
      by (simp add: loop map_of_fold_update map_of_rev_distinct [OF d])
    with ne show ?thesis by (simp add: ParseEnv_def Cons)
  qed
qed

text \<open>
  Claim C10. For an environment whose keys are non-empty, free of \<open>=\<close> and of leading
  and trailing white space, and whose values have no trailing white space,
  \<open>ParseEnv (UnparseEnv env)\<close> is \<open>env\<close> again when \<open>env\<close> is non-empty and is nil when
  \<open>env\<close> is empty. For every input slice, \<open>ParseEnv\<close> skips the entries that are blank
  after trimming, and an entry without \<open>=\<close> is stored as a variable with the empty value.
\<close>

theorem ParseEnv_UnparseEnv:
  "(envOK env \<longrightarrow>
      map_option map_of (ParseEnv (UnparseEnv env)) = (if env = [] then None else Some (map_of env)))
   \<and> ParseEnv (filter (\<lambda>e. TrimSpace e \<noteq> []) raw) = ParseEnv raw
   \<and> (TrimSpace e \<noteq> [] \<and> CHR ''='' \<notin> set (TrimSpace e) \<longrightarrow>
        ParseEnv_loop (e # raw) acc = ParseEnv_loop raw (AList.update (TrimSpace e) [] acc))"
  using ParseEnv_UnparseEnv_map [of env] ParseEnv_loop_filter_blank [of raw "[]"]
    ParseEnv_loop_no_eq [of e raw acc]
  by (simp add: ParseEnv_def)

lemma ws1: "TrimSpace '' JUJU_HOME '' = ''JUJU_HOME''"
  by code_simp

lemma ok1: "envOK [(''A'', ''x y''), (''PATH'', ''/bin=1'')]"
  by code_simp

theorem ParseEnv_UnparseEnv_witness:
  "envOK [(''A'', ''x y''), (''PATH'', ''/bin=1'')]
   \<and> map_option map_of (ParseEnv (UnparseEnv [(''A'', ''x y''), (''PATH'', ''/bin=1'')]))
       = Some (map_of [(''A'', ''x y''), (''PATH'', ''/bin=1'')])
   \<and> ParseEnv (UnparseEnv []) = None
   \<and> TrimSpace '' JUJU_HOME '' \<noteq> [] \<and> CHR ''='' \<notin> set (TrimSpace '' JUJU_HOME '')
   \<and> ParseEnv_loop ['' JUJU_HOME ''] [] = [(''JUJU_HOME'', [])]"
  using ParseEnv_UnparseEnv [of "[(''A'', ''x y''), (''PATH'', ''/bin=1'')]" "[]" "'' JUJU_HOME ''" "[]"]
    ok1 ws1
  by (simp add: ParseEnv_def UnparseEnv_def)

section \<open>The state layer: documents and the store (state/service.go)\<close>

subsection \<open>Documents\<close>

text \<open>
  \<open>Life\<close> is the lifecycle value of services, units and relations. Its declaration
  is outside the sources; the three values are the ones the code names.
\<close>

datatype Life = Alive | Dying | Dead

text \<open>\<open>serviceDoc\<close>, field for field. A \<open>*charm.URL\<close> is a URL or nil.\<close>

record serviceDoc =
  Name :: string
  CharmURL :: "string option"
  ForceCharm :: bool
  Life :: Life
  UnitSeq :: int
  UnitCount :: int
  RelationCount :: int
  Exposed :: bool
  TxnRevno :: int

text \<open>
  \<open>unitDoc\<close> and \<open>relationDoc\<close> are declared outside the sources; they carry the
  fields that service.go reads and writes (\<open>u.doc.Name\<close>, \<open>u.doc.Service\<close>,
  \<open>u.doc.Life\<close>, \<open>Status\<close>, \<open>u.doc.Principal\<close>, \<open>u.doc.MachineId\<close>, the
  \<open>subordinates\<close> set; \<open>rel.doc.Key\<close>, the endpoints, \<open>rel.Life()\<close>).
\<close>

record unitDoc =
  uName :: string
  uService :: string
  uLife :: Life
  uStatus :: string
  uPrincipal :: string
  uMachineId :: string
  uSubordinates :: "string list"

datatype RelationRole = RolePeer | RoleProvider | RoleRequirer

datatype RelationScope = ScopeGlobal | ScopeContainer

record Endpoint =
  ServiceName :: string
  Interface :: string
  RelationName :: string
  RelationRole :: RelationRole
  RelationScope :: RelationScope

record relationDoc =
  rKey :: string
  rEndpoints :: "Endpoint list"
  rLife :: Life

definition UnitPending :: string where
  "UnitPending = ''pending''"

datatype document = ServiceD serviceDoc | UnitD unitDoc | RelationD relationDoc

datatype coll = ServicesC | UnitsC | RelationsC

text \<open>
  The store holds one list of documents per collection, in the order a query returns
  them. A document is found by its \<open>_id\<close>; the first document with the id is the one
  a lookup sees.
\<close>

record store =
  services :: "serviceDoc list"
  units :: "unitDoc list"
  relations :: "relationDoc list"

fun docLife :: "document \<Rightarrow> Life" where
  "docLife (ServiceD d) = Life d"
| "docLife (UnitD d) = uLife d"
| "docLife (RelationD d) = rLife d"

fun lookupDoc :: "store \<Rightarrow> coll \<Rightarrow> string \<Rightarrow> document option" where
  "lookupDoc st ServicesC i = map_option ServiceD (List.find (\<lambda>d. Name d = i) (services st))"
| "lookupDoc st UnitsC i = map_option UnitD (List.find (\<lambda>d. uName d = i) (units st))"
| "lookupDoc st RelationsC i = map_option RelationD (List.find (\<lambda>d. rKey d = i) (relations st))"

subsection \<open>Queries and updates\<close>

text \<open>
  The values of document fields, and the query and update documents that service.go
  writes with \<open>bson.D\<close>: \<open>{"life", Alive}\<close> is \<open>(''life'', IsVal (VLife Alive))\<close>,
  \<open>{"unitcount", D{{"$gt", 0}}}\<close> is \<open>(''unitcount'', Gt 0)\<close>, and
  \<open>{"subordinates", D{{"$not", RegEx "^" + name + "/"}}}\<close> is
  \<open>(''subordinates'', NotPrefix (name @ ''/''))\<close>.
\<close>

datatype "value" = VLife Life | VInt int | VBool bool | VStr string | VURL "string option"
  | VStrs "string list"

datatype cond = IsVal "value" | Gt int | NotPrefix string

datatype assertion = NoAssert | DocMissing | DocExists | Query "(string \<times> cond) list"

datatype update = MSet "(string \<times> value) list" | MInc "(string \<times> int) list"
  | MAddToSet string string | MPull string string

text \<open>The fields of a document under their bson names.\<close>

fun getField :: "document \<Rightarrow> string \<Rightarrow> value option" where
  "getField (ServiceD d) f =
     (if f = ''_id'' then Some (VStr (Name d))
      else if f = ''charmurl'' then Some (VURL (CharmURL d))
      else if f = ''forcecharm'' then Some (VBool (ForceCharm d))
      else if f = ''life'' then Some (VLife (Life d))
      else if f = ''unitseq'' then Some (VInt (UnitSeq d))
      else if f = ''unitcount'' then Some (VInt (UnitCount d))
      else if f = ''relationcount'' then Some (VInt (RelationCount d))
      else if f = ''exposed'' then Some (VBool (Exposed d))
      else if f = ''txn-revno'' then Some (VInt (TxnRevno d))
      else None)"
| "getField (UnitD d) f =
     (if f = ''_id'' then Some (VStr (uName d))
      else if f = ''service'' then Some (VStr (uService d))
      else if f = ''life'' then Some (VLife (uLife d))
      else if f = ''status'' then Some (VStr (uStatus d))
      else if f = ''principal'' then Some (VStr (uPrincipal d))
      else if f = ''machineid'' then Some (VStr (uMachineId d))
      else if f = ''subordinates'' then Some (VStrs (uSubordinates d))
      else None)"
| "getField (RelationD d) f =
     (if f = ''_id'' then Some (VStr (rKey d))
      else if f = ''life'' then Some (VLife (rLife d))
      else None)"

fun setField :: "string \<Rightarrow> value \<Rightarrow> document \<Rightarrow> document" where
  "setField f (VLife l) (ServiceD d) = (if f = ''life'' then ServiceD (d\<lparr>Life := l\<rparr>) else ServiceD d)"
| "setField f (VLife l) (UnitD d) = (if f = ''life'' then UnitD (d\<lparr>uLife := l\<rparr>) else UnitD d)"
| "setField f (VLife l) (RelationD d) = (if f = ''life'' then RelationD (d\<lparr>rLife := l\<rparr>) else RelationD d)"
| "setField f (VInt n) (ServiceD d) =
     (if f = ''unitseq'' then ServiceD (d\<lparr>UnitSeq := n\<rparr>)
      else if f = ''unitcount'' then ServiceD (d\<lparr>UnitCount := n\<rparr>)
      else if f = ''relationcount'' then ServiceD (d\<lparr>RelationCount := n\<rparr>)
      else if f = ''txn-revno'' then ServiceD (d\<lparr>TxnRevno := n\<rparr>)
      else ServiceD d)"
| "setField f (VBool b) (ServiceD d) =
     (if f = ''forcecharm'' then ServiceD (d\<lparr>ForceCharm := b\<rparr>)
      else if f = ''exposed'' then ServiceD (d\<lparr>Exposed := b\<rparr>)
      else ServiceD d)"
| "setField f (VURL u) (ServiceD d) = (if f = ''charmurl'' then ServiceD (d\<lparr>CharmURL := u\<rparr>) else ServiceD d)"
| "setField f (VStr x) (ServiceD d) = (if f = ''_id'' then ServiceD (d\<lparr>Name := x\<rparr>) else ServiceD d)"
| "setField f (VStr x) (UnitD d) =
     (if f = ''_id'' then UnitD (d\<lparr>uName := x\<rparr>)
      else if f = ''service'' then UnitD (d\<lparr>uService := x\<rparr>)
      else if f = ''status'' then UnitD (d\<lparr>uStatus := x\<rparr>)
      else if f = ''principal'' then UnitD (d\<lparr>uPrincipal := x\<rparr>)
      else if f = ''machineid'' then UnitD (d\<lparr>uMachineId := x\<rparr>)
      else UnitD d)"
| "setField f (VStr x) (RelationD d) = (if f = ''_id'' then RelationD (d\<lparr>rKey := x\<rparr>) else RelationD d)"
| "setField f (VStrs xs) (UnitD d) = (if f = ''subordinates'' then UnitD (d\<lparr>uSubordinates := xs\<rparr>) else UnitD d)"
| "setField f v d = d"

fun holds :: "cond \<Rightarrow> value option \<Rightarrow> bool" where
  "holds (IsVal v) x = (x = Some v)"
| "holds (Gt n) x = (case x of Some (VInt m) \<Rightarrow> n < m | _ \<Rightarrow> False)"
| "holds (NotPrefix p) x =
     (case x of Some (VStrs xs) \<Rightarrow> \<not> list_ex (prefix p) xs
      | Some (VStr s) \<Rightarrow> \<not> prefix p s
      | _ \<Rightarrow> True)"

fun matches :: "document option \<Rightarrow> assertion \<Rightarrow> bool" where
  "matches d NoAssert = True"
| "matches d DocMissing = (d = None)"
| "matches d DocExists = (d \<noteq> None)"
| "matches None (Query q) = False"
| "matches (Some d) (Query q) = list_all (\<lambda>(f, c). holds c (getField d f)) q"

fun incField :: "string \<times> int \<Rightarrow> document \<Rightarrow> document" where
  "incField (f, n) d = (case getField d f of Some (VInt m) \<Rightarrow> setField f (VInt (m + n)) d | _ \<Rightarrow> d)"

fun applyUpdate :: "update \<Rightarrow> document \<Rightarrow> document" where
  "applyUpdate (MSet fs) d = fold (\<lambda>(f, v). setField f v) fs d"
| "applyUpdate (MInc fs) d = fold incField fs d"
| "applyUpdate (MAddToSet f x) d =
     (case getField d f of
        Some (VStrs xs) \<Rightarrow> setField f (VStrs (if x \<in> set xs then xs else xs @ [x])) d
      | _ \<Rightarrow> d)"
| "applyUpdate (MPull f x) d =
     (case getField d f of
        Some (VStrs xs) \<Rightarrow> setField f (VStrs (filter (\<lambda>y. y \<noteq> x) xs)) d
      | _ \<Rightarrow> d)"


subsection \<open>Transactions (labix.org/v2/mgo/txn)\<close>

text \<open>
  A \<open>txn.Op\<close>: the collection \<open>C\<close> and document \<open>Id\<close>, the assertion, and at most
  one of \<open>Insert\<close>, \<open>Update\<close> and \<open>Remove\<close>. A field that a Go struct literal leaves
  out has its zero value: \<open>NoAssert\<close>, \<open>None\<close>, \<open>False\<close>.
\<close>

record Op =
  C :: coll
  Id' :: string
  Assert :: assertion
  Insert :: "document option"
  Update :: "update option"
  Remove :: bool

fun modifyDoc :: "coll \<Rightarrow> string \<Rightarrow> (document \<Rightarrow> document) \<Rightarrow> store \<Rightarrow> store" where
  "modifyDoc ServicesC i f st =
     st\<lparr>services :=
          map (\<lambda>d. if Name d = i then (case f (ServiceD d) of ServiceD d' \<Rightarrow> d' | _ \<Rightarrow> d) else d)
            (services st)\<rparr>"
| "modifyDoc UnitsC i f st =
     st\<lparr>units :=
          map (\<lambda>d. if uName d = i then (case f (UnitD d) of UnitD d' \<Rightarrow> d' | _ \<Rightarrow> d) else d)
            (units st)\<rparr>"
| "modifyDoc RelationsC i f st =
     st\<lparr>relations :=
          map (\<lambda>d. if rKey d = i then (case f (RelationD d) of RelationD d' \<Rightarrow> d' | _ \<Rightarrow> d) else d)
            (relations st)\<rparr>"

fun insertDoc :: "coll \<Rightarrow> string \<Rightarrow> document \<Rightarrow> store \<Rightarrow> store" where
  "insertDoc ServicesC i (ServiceD d) st = st\<lparr>services := services st @ [d\<lparr>Name := i\<rparr>]\<rparr>"
| "insertDoc UnitsC i (UnitD d) st = st\<lparr>units := units st @ [d\<lparr>uName := i\<rparr>]\<rparr>"
| "insertDoc RelationsC i (RelationD d) st = st\<lparr>relations := relations st @ [d\<lparr>rKey := i\<rparr>]\<rparr>"
| "insertDoc c i d st = st"

fun removeDoc :: "coll \<Rightarrow> string \<Rightarrow> store \<Rightarrow> store" where
  "removeDoc ServicesC i st = st\<lparr>services := filter (\<lambda>d. Name d \<noteq> i) (services st)\<rparr>"
| "removeDoc UnitsC i st = st\<lparr>units := filter (\<lambda>d. uName d \<noteq> i) (units st)\<rparr>"
| "removeDoc RelationsC i st = st\<lparr>relations := filter (\<lambda>d. rKey d \<noteq> i) (relations st)\<rparr>"

text \<open>
  The runner keeps the revision of a document in its \<open>txn-revno\<close> field and advances
  it whenever a transaction changes the document; \<open>serviceDoc\<close> is the document type
  that maps the field.
\<close>

fun bumpRevno :: "document \<Rightarrow> document" where
  "bumpRevno (ServiceD d) = ServiceD (d\<lparr>TxnRevno := TxnRevno d + 1\<rparr>)"
| "bumpRevno d = d"

text \<open>
  One operation applied: an insert of an existing document, and an update or a removal
  of a missing one, change nothing and do not stop the transaction.
\<close>

definition applyOp :: "Op \<Rightarrow> store \<Rightarrow> store" where
  "applyOp op st =
     (case Insert op of
        Some d \<Rightarrow>
          (if lookupDoc st (C op) (Id' op) = None then insertDoc (C op) (Id' op) d st else st)
      | None \<Rightarrow>
          (case Update op of
             Some u \<Rightarrow> modifyDoc (C op) (Id' op) (\<lambda>d. bumpRevno (applyUpdate u d)) st
           | None \<Rightarrow> if Remove op then removeDoc (C op) (Id' op) st else st))"

text \<open>
  A transaction: every assertion is tested on the store as it is before any change; if
  one fails nothing is applied (\<open>None\<close>, the runner's \<open>ErrAborted\<close>), otherwise the
  operations are applied in order.
\<close>

definition assertsHold :: "Op list \<Rightarrow> store \<Rightarrow> bool" where
  "assertsHold ops st = list_all (\<lambda>op. matches (lookupDoc st (C op) (Id' op)) (Assert op)) ops"

definition txnRun :: "Op list \<Rightarrow> store \<Rightarrow> store option" where
  "txnRun ops st = (if assertsHold ops st then Some (fold applyOp ops st) else None)"

subsection \<open>Errors\<close>

text \<open>
  Go error values. \<open>ErrAborted\<close> is \<open>txn.ErrAborted\<close>, \<open>ErrNotFound\<close> is
  \<open>mgo.ErrNotFound\<close>, \<open>DriverError\<close> any other failure of the store driver.
  \<open>ErrorsNew\<close> is \<open>errors.New\<close>; \<open>Errorf\<close> keeps the format and the arguments of a
  \<open>fmt.Errorf\<close> call; \<open>NotFoundf\<close> is the \<open>notFound\<close> helper's \<open>NotFoundError\<close>;
  \<open>ErrorContextf\<close> is an error that \<open>trivial.ErrorContextf\<close> has prefixed with a
  context message.
\<close>

datatype error = ErrAborted | ErrNotFound | DriverError string | ErrorsNew string
  | Errorf string "arg list" | NotFoundf string "arg list" | ErrorContextf string "arg list" error
and arg = AStr string | ABool bool | AErr error

subsection \<open>Charms\<close>

text \<open>
  Charm metadata as service.go reads it: \<open>ch.URL()\<close>, \<open>ch.Meta()\<close> with its
  \<open>Peers\<close>, \<open>Provides\<close> and \<open>Requires\<close> maps and the \<open>Subordinate\<close> flag. A Go map
  is the list of its entries, with distinct keys, in the order a \<open>range\<close> loop
  visits them.
\<close>

record charmRelation =
  relInterface :: string
  relScope :: RelationScope

record Meta =
  Peers :: "(string \<times> charmRelation) list"
  Provides :: "(string \<times> charmRelation) list"
  Requires :: "(string \<times> charmRelation) list"
  Subordinate :: bool

record Charm =
  URL :: string
  Meta :: Meta

subsection \<open>The State: store, charms, driver failures and the trace of store accesses\<close>

datatype access = Txn "Op list" | FindOne coll string | FindAll coll string
  | CountDocs coll string | FindAndModify coll string

text \<open>
  \<open>db\<close> is the store and \<open>charms\<close> the charms that can be resolved. Every access to
  the store takes the next entry of \<open>faults\<close>: \<open>Some msg\<close> makes the access fail with
  a driver error and leaves the store as it is, \<open>None\<close> (or an empty list) lets it go
  through. \<open>trace\<close> records the accesses in order. Between the accesses of one
  operation no other writer changes the store; what other writers did before shows as
  a difference between a cached document and the store.
\<close>

record State =
  db :: store
  charms :: "Charm list"
  faults :: "string option list"
  trace :: "access list"

definition access :: "access \<Rightarrow> State \<Rightarrow> string option \<times> State" where
  "access a st =
     (case faults st of
        [] \<Rightarrow> (None, st\<lparr>trace := trace st @ [a]\<rparr>)
      | f # fs \<Rightarrow> (f, st\<lparr>faults := fs, trace := trace st @ [a]\<rparr>))"

text \<open>\<open>st.runner.Run(ops, "", nil)\<close>.\<close>

definition Run :: "Op list \<Rightarrow> State \<Rightarrow> error option \<times> State" where
  "Run ops st =
     (case access (Txn ops) st of
        (Some msg, st1) \<Rightarrow> (Some (DriverError msg), st1)
      | (None, st1) \<Rightarrow>
          (case txnRun ops (db st1) of
             None \<Rightarrow> (Some ErrAborted, st1)
           | Some db' \<Rightarrow> (None, st1\<lparr>db := db'\<rparr>)))"

text \<open>\<open>coll.FindId(id).One(&doc)\<close>.\<close>

definition FindId :: "coll \<Rightarrow> string \<Rightarrow> State \<Rightarrow> (error + document) \<times> State" where
  "FindId c i st =
     (case access (FindOne c i) st of
        (Some msg, st1) \<Rightarrow> (Inl (DriverError msg), st1)
      | (None, st1) \<Rightarrow>
          (case lookupDoc (db st1) c i of
             None \<Rightarrow> (Inl ErrNotFound, st1)
           | Some d \<Rightarrow> (Inr d, st1)))"

text \<open>\<open>coll.FindId(id).Count()\<close>.\<close>

definition CountId :: "coll \<Rightarrow> string \<Rightarrow> State \<Rightarrow> (error + nat) \<times> State" where
  "CountId c i st =
     (case access (CountDocs c i) st of
        (Some msg, st1) \<Rightarrow> (Inl (DriverError msg), st1)
      | (None, st1) \<Rightarrow>
          (case lookupDoc (db st1) c i of
             None \<Rightarrow> (Inr 0, st1)
           | Some d \<Rightarrow> (Inr 1, st1)))"

text \<open>\<open>st.relations.Find(D{{"endpoints.servicename", name}}).All(&docs)\<close>.\<close>

definition relationsOf :: "string \<Rightarrow> store \<Rightarrow> relationDoc list" where
  "relationsOf name st =
     filter (\<lambda>r. list_ex (\<lambda>e. ServiceName e = name) (rEndpoints r)) (relations st)"

definition FindRelations :: "string \<Rightarrow> State \<Rightarrow> (error + relationDoc list) \<times> State" where
  "FindRelations name st =
     (case access (FindAll RelationsC name) st of
        (Some msg, st1) \<Rightarrow> (Inl (DriverError msg), st1)
      | (None, st1) \<Rightarrow> (Inr (relationsOf name (db st1)), st1))"

text \<open>\<open>st.units.Find(D{{"_id", name}, {"service", service}}).One(udoc)\<close>.\<close>

definition FindUnit :: "string \<Rightarrow> string \<Rightarrow> State \<Rightarrow> (error + unitDoc) \<times> State" where
  "FindUnit name service st =
     (case access (FindOne UnitsC name) st of
        (Some msg, st1) \<Rightarrow> (Inl (DriverError msg), st1)
      | (None, st1) \<Rightarrow>
          (case List.find (\<lambda>d. uName d = name) (units (db st1)) of
             None \<Rightarrow> (Inl ErrNotFound, st1)
           | Some d \<Rightarrow> if uService d = service then (Inr d, st1) else (Inl ErrNotFound, st1)))"

text \<open>
  \<open>st.services.Find(D{{"_id", name}}).Apply(change, &result)\<close>: mgo's find-and-modify.
  It updates the document in one step of the store and hands back one document: the
  updated one when the change's \<open>ReturnNew\<close> field is true, the document as it was
  before the update when it is false. The change is not a transaction, so the
  revision stays.
\<close>

record Change =
  chUpdate :: update
  chReturnNew :: bool

definition Apply :: "string \<Rightarrow> Change \<Rightarrow> State \<Rightarrow> (error + serviceDoc) \<times> State" where
  "Apply name change st =
     (case access (FindAndModify ServicesC name) st of
        (Some msg, st1) \<Rightarrow> (Inl (DriverError msg), st1)
      | (None, st1) \<Rightarrow>
          (case List.find (\<lambda>d. Name d = name) (services (db st1)) of
             None \<Rightarrow> (Inl ErrNotFound, st1)
           | Some old \<Rightarrow>
               (let new = (case applyUpdate (chUpdate change) (ServiceD old) of
                             ServiceD d \<Rightarrow> d | _ \<Rightarrow> old);
                    st2 = st1\<lparr>db := modifyDoc ServicesC name (applyUpdate (chUpdate change)) (db st1)\<rparr>
                in (Inr (if chReturnNew change then new else old), st2))))"

section \<open>Service operations (state/service.go)\<close>

text \<open>
  A \<open>Service\<close> is its cached document \<open>s.doc\<close> (the other field is the State handle,
  which the operations take and give back). An operation returns its Go results, the
  cached document where it changes it, and the State afterwards.
\<close>

subsection \<open>Helpers declared outside the sources\<close>

text \<open>
  Modelled from the spec: the shared helpers and constants of the lifecycle engine that
  service.go uses and that are declared in files outside the sources.
  \<open>isAlive\<close> is the assertion "Life == Alive"; \<open>errNotAlive\<close> the "not alive" error;
  \<open>onAbort\<close> translates the runner's abort signal into the given domain error (or into
  success) and passes every other error on.
\<close>

definition isAlive :: "(string \<times> cond) list" where
  "isAlive = [(''life'', IsVal (VLife Alive))]"

definition errNotAlive :: error where
  "errNotAlive = ErrorsNew ''not alive''"

definition onAbort :: "error \<Rightarrow> error option \<Rightarrow> error option" where
  "onAbort txnErr err = (if txnErr = ErrAborted then err else Some txnErr)"

text \<open>
  Modelled from the spec: \<open>getAlive\<close>, the re-check of an entity's liveness after an
  abort: whether the collection holds the document with Life Alive.
\<close>

definition getAlive :: "coll \<Rightarrow> string \<Rightarrow> State \<Rightarrow> (error + bool) \<times> State" where
  "getAlive c i st =
     (case access (CountDocs c i) st of
        (Some msg, st1) \<Rightarrow> (Inl (DriverError msg), st1)
      | (None, st1) \<Rightarrow>
          (case lookupDoc (db st1) c i of
             None \<Rightarrow> (Inr False, st1)
           | Some d \<Rightarrow> (Inr (docLife d = Alive), st1)))"

text \<open>
  Modelled from the spec: \<open>State.Charm\<close>, the charm subsystem's
  \<open>resolveCharm(url) -> CharmMetadata\<close>, an external collaborator that is not an access
  to the service, unit and relation collections.
\<close>

definition State_Charm :: "string option \<Rightarrow> State \<Rightarrow> error + Charm" where
  "State_Charm curl st =
     (case curl of
        None \<Rightarrow> Inl (NotFoundf ''charm %q'' [])
      | Some u \<Rightarrow>
          (case List.find (\<lambda>ch. URL ch = u) (charms st) of
             None \<Rightarrow> Inl (NotFoundf ''charm %q'' [AStr u])
           | Some ch \<Rightarrow> Inr ch))"

text \<open>
  Modelled from the spec: the shared "ensure dead" helper \<open>ensureDead\<close>, parameterised by
  collection, identifier and the zero-dependents assertion. It submits one transaction,
  the assertion operations followed by "set Life to Dead" on the entity, and does not
  retry: on success it returns success; on an abort it reads the entity again and
  returns success when the entity is already Dead or gone, and the assertion's error
  otherwise. Errors carry the entity's identity. (The spec does not give the wording of
  that context, nor the result for an entity that is gone.)
\<close>

definition ensureDead ::
  "coll \<Rightarrow> string \<Rightarrow> string \<Rightarrow> Op list \<Rightarrow> string \<Rightarrow> State \<Rightarrow> error option \<times> State" where
  "ensureDead c i desc assertOps assertMsg st =
     (let ctx = ErrorContextf ''cannot finish termination of %s %#v'' [AStr desc, AStr i];
          ops = assertOps @
            [\<lparr>C = c, Id' = i, Assert = NoAssert, Insert = None,
              Update = Some (MSet [(''life'', VLife Dead)]), Remove = False\<rparr>]
      in case Run ops st of
           (None, st1) \<Rightarrow> (None, st1)
         | (Some err, st1) \<Rightarrow>
             if err \<noteq> ErrAborted then (Some (ctx err), st1)
             else
               (case FindId c i st1 of
                  (Inl e, st2) \<Rightarrow> if e = ErrNotFound then (None, st2) else (Some (ctx e), st2)
                | (Inr d, st2) \<Rightarrow>
                    if docLife d \<noteq> Dead then (Some (ctx (Errorf assertMsg [])), st2)
                    else (None, st2)))"

subsection \<open>Refresh, Relations, Charm\<close>

text \<open>\<open>Service.Refresh\<close>: on an error the cached document stays as it is.\<close>

definition Refresh :: "serviceDoc \<Rightarrow> State \<Rightarrow> error option \<times> serviceDoc \<times> State" where
  "Refresh s st =
     (case FindId ServicesC (Name s) st of
        (Inl err, st1) \<Rightarrow>
          if err = ErrNotFound then (Some (NotFoundf ''service %q'' [AStr (Name s)]), s, st1)
          else (Some (Errorf ''cannot refresh service %q: %v'' [AStr (Name s), AErr err]), s, st1)
      | (Inr (ServiceD d), st1) \<Rightarrow> (None, d, st1)
      | (Inr _, st1) \<Rightarrow> (None, s, st1))"

text \<open>
  \<open>Service.Relations\<close>: \<open>newRelation\<close> copies each document, as \<open>newService\<close> does, so
  a Relation is its document.
\<close>

definition Relations :: "serviceDoc \<Rightarrow> State \<Rightarrow> (error + relationDoc list) \<times> State" where
  "Relations s st =
     (case FindRelations (Name s) st of
        (Inl err, st1) \<Rightarrow>
          (Inl (ErrorContextf ''can't get relations for service %q'' [AStr (Name s)] err), st1)
      | (Inr docs, st1) \<Rightarrow> (Inr docs, st1))"

text \<open>\<open>Service.Charm\<close>.\<close>

definition Service_Charm :: "serviceDoc \<Rightarrow> State \<Rightarrow> error + Charm \<times> bool" where
  "Service_Charm s st =
     (case State_Charm (CharmURL s) st of
        Inl err \<Rightarrow> Inl err
      | Inr ch \<Rightarrow> Inr (ch, ForceCharm s))"

subsection \<open>EnsureDying\<close>

text \<open>The operations that one pass of the loop builds from the relations it has read.\<close>

definition EnsureDying_ops :: "serviceDoc \<Rightarrow> relationDoc list \<Rightarrow> Op list" where
  "EnsureDying_ops s rels =
     \<lparr>C = ServicesC, Id' = Name s,
      Assert = Query [(''life'', IsVal (VLife Alive)), (''txn-revno'', IsVal (VInt (TxnRevno s)))],
      Insert = None, Update = Some (MSet [(''life'', VLife Dying)]), Remove = False\<rparr>
     # map (\<lambda>rel.
          \<lparr>C = RelationsC, Id' = rKey rel, Assert = Query isAlive, Insert = None,
           Update = Some (MSet [(''life'', VLife Dying)]), Remove = False\<rparr>)
        (filter (\<lambda>rel. rLife rel = Alive) rels)"

text \<open>
  The loop \<open>for s.doc.Life == Alive\<close>. The source puts no bound on the number of
  passes; the first argument bounds them, and \<open>None\<close> is a loop that is still running
  when the bound is used up.
\<close>

fun EnsureDying_loop ::
  "nat \<Rightarrow> serviceDoc \<Rightarrow> State \<Rightarrow> (error option \<times> serviceDoc \<times> State) option" where
  "EnsureDying_loop 0 s st = (if Life s = Alive then None else Some (None, s, st))"
| "EnsureDying_loop (Suc n) s st =
     (if Life s = Alive then
        (case Relations s st of
           (Inl err, st1) \<Rightarrow> Some (Some err, s, st1)
         | (Inr rels, st1) \<Rightarrow>
             if int (length rels) \<noteq> RelationCount s then
               (case Refresh s st1 of
                  (Some err, s', st2) \<Rightarrow> Some (Some err, s', st2)
                | (None, s', st2) \<Rightarrow> EnsureDying_loop n s' st2)
             else
               (case Run (EnsureDying_ops s rels) st1 of
                  (Some err, st2) \<Rightarrow>
                    if err = ErrAborted then
                      (case Refresh s st2 of
                         (Some err', s', st3) \<Rightarrow> Some (Some err', s', st3)
                       | (None, s', st3) \<Rightarrow> EnsureDying_loop n s' st3)
                    else Some (Some err, s, st2)
                | (None, st2) \<Rightarrow> EnsureDying_loop n (s\<lparr>Life := Dying\<rparr>) st2))
      else Some (None, s, st))"

subsection \<open>EnsureDead\<close>

definition EnsureDead_assertOps :: "serviceDoc \<Rightarrow> Op list" where
  "EnsureDead_assertOps s =
     [\<lparr>C = ServicesC, Id' = Name s,
       Assert = Query [(''unitcount'', IsVal (VInt 0)), (''relationcount'', IsVal (VInt 0))],
       Insert = None, Update = None, Remove = False\<rparr>]"

definition EnsureDead :: "serviceDoc \<Rightarrow> State \<Rightarrow> error option \<times> serviceDoc \<times> State" where
  "EnsureDead s st =
     (let assertOps = EnsureDead_assertOps s
      in case ensureDead ServicesC (Name s) ''service'' assertOps
                ''service still has units and/or relations'' st of
           (Some err, st1) \<Rightarrow> (Some err, s, st1)
         | (None, st1) \<Rightarrow> (None, s\<lparr>Life := Dead\<rparr>, st1))"

subsection \<open>SetExposed, ClearExposed, SetCharm\<close>

definition setExposed_ops :: "serviceDoc \<Rightarrow> bool \<Rightarrow> Op list" where
  "setExposed_ops s exposed =
     [\<lparr>C = ServicesC, Id' = Name s, Assert = Query isAlive, Insert = None,
       Update = Some (MSet [(''exposed'', VBool exposed)]), Remove = False\<rparr>]"

definition setExposed :: "serviceDoc \<Rightarrow> bool \<Rightarrow> State \<Rightarrow> error option \<times> serviceDoc \<times> State" where
  "setExposed s exposed st =
     (case Run (setExposed_ops s exposed) st of
        (Some err, st1) \<Rightarrow>
          (Some (Errorf ''cannot set exposed flag for service %q to %v: %v''
                   [AStr (Name s), ABool exposed,
                    (case onAbort err (Some errNotAlive) of Some e \<Rightarrow> AErr e | None \<Rightarrow> AErr err)]),
           s, st1)
      | (None, st1) \<Rightarrow> (None, s\<lparr>Exposed := exposed\<rparr>, st1))"

definition SetExposed :: "serviceDoc \<Rightarrow> State \<Rightarrow> error option \<times> serviceDoc \<times> State" where
  "SetExposed s st = setExposed s True st"

definition ClearExposed :: "serviceDoc \<Rightarrow> State \<Rightarrow> error option \<times> serviceDoc \<times> State" where
  "ClearExposed s st = setExposed s False st"

definition SetCharm_ops :: "serviceDoc \<Rightarrow> Charm \<Rightarrow> bool \<Rightarrow> Op list" where
  "SetCharm_ops s ch force =
     [\<lparr>C = ServicesC, Id' = Name s, Assert = Query isAlive, Insert = None,
       Update = Some (MSet [(''charmurl'', VURL (Some (URL ch))), (''forcecharm'', VBool force)]),
       Remove = False\<rparr>]"

definition SetCharm :: "serviceDoc \<Rightarrow> Charm \<Rightarrow> bool \<Rightarrow> State \<Rightarrow> error option \<times> serviceDoc \<times> State" where
  "SetCharm s ch force st =
     (case Run (SetCharm_ops s ch force) st of
        (Some err, st1) \<Rightarrow>
          (Some (Errorf ''cannot set charm for service %q: %v''
                   [AStr (Name s),
                    (case onAbort err (Some errNotAlive) of Some e \<Rightarrow> AErr e | None \<Rightarrow> AErr err)]),
           s, st1)
      | (None, st1) \<Rightarrow> (None, s\<lparr>CharmURL := Some (URL ch), ForceCharm := force\<rparr>, st1))"

subsection \<open>Endpoints\<close>

text \<open>The closure \<open>collect\<close>: one endpoint per entry of the map, appended to \<open>eps\<close>.\<close>

definition collect ::
  "serviceDoc \<Rightarrow> RelationRole \<Rightarrow> (string \<times> charmRelation) list \<Rightarrow> Endpoint list \<Rightarrow> Endpoint list" where
  "collect s role rels eps =
     eps @ map (\<lambda>(name, rel).
                 \<lparr>ServiceName = Name s, Interface = relInterface rel, RelationName = name,
                  RelationRole = role, RelationScope = relScope rel\<rparr>) rels"

definition Endpoints :: "serviceDoc \<Rightarrow> State \<Rightarrow> error + Endpoint list" where
  "Endpoints s st =
     (case Service_Charm s st of
        Inl err \<Rightarrow> Inl err
      | Inr (ch, force) \<Rightarrow>
          (let meta = Meta ch;
               eps = collect s RolePeer (Peers meta) [];
               eps = collect s RoleProvider (Provides meta) eps;
               eps = collect s RoleRequirer (Requires meta) eps;
               eps = collect s RoleProvider
                       [(''juju-info'', \<lparr>relInterface = ''juju-info'', relScope = ScopeGlobal\<rparr>)] eps
           in Inr eps))"

subsection \<open>Unit names and unit creation\<close>

text \<open>\<open>strconv.Itoa\<close>: the decimal digits, with a minus sign for a negative number.\<close>

fun digits :: "nat \<Rightarrow> string" where
  "digits n =
     (if n < 10 then [''0123456789'' ! n]
      else digits (n div 10) @ [''0123456789'' ! (n mod 10)])"

declare digits.simps [simp del]

definition Itoa :: "int \<Rightarrow> string" where
  "Itoa i = (if i < 0 then CHR ''-'' # digits (nat (- i)) else digits (nat i))"

text \<open>
  \<open>newUnitName\<close>: the change is \<open>mgo.Change{Update: D{{"$inc", D{{"unitseq", 1}}}}}\<close>;
  the literal does not set \<open>ReturnNew\<close>, which therefore has Go's zero value false.
\<close>

definition newUnitName :: "serviceDoc \<Rightarrow> State \<Rightarrow> (error + string) \<times> State" where
  "newUnitName s st =
     (let change = \<lparr>chUpdate = MInc [(''unitseq'', 1)], chReturnNew = False\<rparr>
      in case Apply (Name s) change st of
           (Inl err, st1) \<Rightarrow> (Inl (Errorf ''cannot increment unit sequence: %v'' [AErr err]), st1)
         | (Inr result, st1) \<Rightarrow> (Inr (Name s @ ''/'' @ Itoa (UnitSeq result)), st1))"

definition addUnitOps ::
  "serviceDoc \<Rightarrow> string \<Rightarrow> bool \<Rightarrow> State \<Rightarrow> (error + string \<times> Op list) \<times> State" where
  "addUnitOps s principalName strictSubordinates st =
     (case Service_Charm s st of
        Inl err \<Rightarrow> (Inl err, st)
      | Inr (ch, force) \<Rightarrow>
          (let subordinate = Subordinate (Meta ch) in
           if subordinate \<and> principalName = [] then (Inl (Errorf ''service is subordinate'' []), st)
           else if \<not> subordinate \<and> principalName \<noteq> [] then
             (Inl (Errorf ''service is not a subordinate'' []), st)
           else
             (case newUnitName s st of
                (Inl err, st1) \<Rightarrow> (Inl err, st1)
              | (Inr name, st1) \<Rightarrow>
                  (let udoc = \<lparr>uName = name, uService = Name s, uLife = Alive,
                              uStatus = UnitPending, uPrincipal = principalName,
                              uMachineId = [], uSubordinates = []\<rparr>;
                       ops =
                         [\<lparr>C = UnitsC, Id' = name, Assert = DocMissing, Insert = Some (UnitD udoc),
                           Update = None, Remove = False\<rparr>,
                          \<lparr>C = ServicesC, Id' = Name s, Assert = Query isAlive, Insert = None,
                           Update = Some (MInc [(''unitcount'', 1)]), Remove = False\<rparr>];
                       ops =
                         (if principalName \<noteq> [] then
                            (let assert =
                               (if strictSubordinates
                                then isAlive @ [(''subordinates'', NotPrefix (Name s @ ''/''))]
                                else isAlive)
                             in ops @
                                [\<lparr>C = UnitsC, Id' = principalName, Assert = Query assert,
                                  Insert = None,
                                  Update = Some (MAddToSet ''subordinates'' name),
                                  Remove = False\<rparr>])
                          else ops)
                   in (Inr (name, ops), st1)))))"

text \<open>
  \<open>Service.Unit\<close>. \<open>IsUnitName\<close>, the check of the naming grammar, is declared outside
  the sources and is a parameter.
\<close>

definition Service_Unit ::
  "(string \<Rightarrow> bool) \<Rightarrow> serviceDoc \<Rightarrow> string \<Rightarrow> State \<Rightarrow> (error + unitDoc) \<times> State" where
  "Service_Unit IsUnitName s name st =
     (if \<not> IsUnitName name then (Inl (Errorf ''%q is not a valid unit name'' [AStr name]), st)
      else
        (case FindUnit name (Name s) st of
           (Inl err, st1) \<Rightarrow>
             (Inl (Errorf ''cannot get unit %q from service %q: %v''
                     [AStr name, AStr (Name s), AErr err]), st1)
         | (Inr udoc, st1) \<Rightarrow> (Inr udoc, st1)))"

definition AddUnit ::
  "(string \<Rightarrow> bool) \<Rightarrow> serviceDoc \<Rightarrow> State \<Rightarrow> (error + unitDoc) \<times> State" where
  "AddUnit IsUnitName s st =
     (let ctx = ErrorContextf ''cannot add unit to service %q'' [AStr (Name s)]
      in case addUnitOps s [] False st of
           (Inl err, st1) \<Rightarrow> (Inl (ctx err), st1)
         | (Inr (name, ops), st1) \<Rightarrow>
             (case Run ops st1 of
                (Some err, st2) \<Rightarrow>
                  if err = ErrAborted then
                    (case getAlive ServicesC (Name s) st2 of
                       (Inl e, st3) \<Rightarrow> (Inl (ctx e), st3)
                     | (Inr alive, st3) \<Rightarrow>
                         if \<not> alive then (Inl (ctx (Errorf ''service is not alive'' [])), st3)
                         else (Inl (ctx (Errorf ''inconsistent state'' [])), st3))
                  else (Inl (ctx err), st2)
              | (None, st2) \<Rightarrow>
                  (case Service_Unit IsUnitName s name st2 of
                     (Inl e, st3) \<Rightarrow> (Inl (ctx e), st3)
                   | (Inr u, st3) \<Rightarrow> (Inr u, st3))))"

text \<open>\<open>AddUnitSubordinateTo\<close>; \<open>principal.IsPrincipal()\<close> is "the Principal field is empty".\<close>

definition AddUnitSubordinateTo ::
  "(string \<Rightarrow> bool) \<Rightarrow> serviceDoc \<Rightarrow> unitDoc \<Rightarrow> State \<Rightarrow> (error + unitDoc) \<times> State" where
  "AddUnitSubordinateTo IsUnitName s principal' st =
     (let ctx = ErrorContextf ''cannot add unit to service %q as a subordinate of %q''
                  [AStr (Name s), AStr (uName principal')]
      in case Service_Charm s st of
           Inl err \<Rightarrow> (Inl (ctx err), st)
         | Inr (ch, force) \<Rightarrow>
             if \<not> Subordinate (Meta ch) then (Inl (ctx (Errorf ''service is not a subordinate'' [])), st)
             else if uPrincipal principal' \<noteq> [] then
               (Inl (ctx (Errorf ''unit is not a principal'' [])), st)
             else
               (case addUnitOps s (uName principal') False st of
                  (Inl err, st1) \<Rightarrow> (Inl (ctx err), st1)
                | (Inr (name, ops), st1) \<Rightarrow>
                    (case Run ops st1 of
                       (None, st2) \<Rightarrow>
                         (case Service_Unit IsUnitName s name st2 of
                            (Inl e, st3) \<Rightarrow> (Inl (ctx e), st3)
                          | (Inr u, st3) \<Rightarrow> (Inr u, st3))
                     | (Some err, st2) \<Rightarrow>
                         if err \<noteq> ErrAborted then (Inl (ctx err), st2)
                         else
                           (case getAlive ServicesC (Name s) st2 of
                              (Inl e, st3) \<Rightarrow> (Inl (ctx e), st3)
                            | (Inr alive, st3) \<Rightarrow>
                                if \<not> alive then (Inl (ctx (Errorf ''service is not alive'' [])), st3)
                                else
                                  (case getAlive UnitsC (uName principal') st3 of
                                     (Inl e, st4) \<Rightarrow> (Inl (ctx e), st4)
                                   | (Inr alive', st4) \<Rightarrow>
                                       if \<not> alive' then
                                         (Inl (ctx (Errorf ''principal unit is not alive'' [])), st4)
                                       else (Inl (ctx (Errorf ''inconsistent state'' [])), st4))))))"

subsection \<open>RemoveUnit\<close>

definition RemoveUnit_ops :: "serviceDoc \<Rightarrow> unitDoc \<Rightarrow> Op list" where
  "RemoveUnit_ops s u =
     (let ops =
        [\<lparr>C = UnitsC, Id' = uName u, Assert = Query [(''life'', IsVal (VLife Dead))],
          Insert = None, Update = None, Remove = True\<rparr>,
         \<lparr>C = ServicesC, Id' = Name s, Assert = Query [(''unitcount'', Gt 0)],
          Insert = None, Update = Some (MInc [(''unitcount'', - 1)]), Remove = False\<rparr>]
      in if uPrincipal u \<noteq> [] then
           ops @ [\<lparr>C = UnitsC, Id' = uPrincipal u, Assert = DocExists, Insert = None,
                   Update = Some (MPull ''subordinates'' (uName u)), Remove = False\<rparr>]
         else ops)"

text \<open>
  \<open>RemoveUnit\<close>. \<open>Unit.UnassignFromMachine\<close> is an operation of the Unit entity that is
  declared outside the sources; it is the parameter \<open>UnassignFromMachine\<close>.
\<close>

definition RemoveUnit ::
  "(unitDoc \<Rightarrow> State \<Rightarrow> error option \<times> State) \<Rightarrow> serviceDoc \<Rightarrow> unitDoc \<Rightarrow> State
     \<Rightarrow> error option \<times> State" where
  "RemoveUnit UnassignFromMachine s u st =
     (let ctx = ErrorContextf ''cannot remove unit %q'' [AStr (uName u)]
      in if uLife u \<noteq> Dead then (Some (ctx (ErrorsNew ''unit is not dead'')), st)
         else if uService u \<noteq> Name s then
           (Some (ctx (Errorf ''unit is not assigned to service %q'' [AStr (Name s)])), st)
         else
           (case (if uMachineId u \<noteq> [] then UnassignFromMachine u st else (None, st)) of
              (Some err, st1) \<Rightarrow> (Some (ctx err), st1)
            | (None, st1) \<Rightarrow>
                (case Run (RemoveUnit_ops s u) st1 of
                   (None, st2) \<Rightarrow> (None, st2)
                 | (Some err, st2) \<Rightarrow>
                     (case CountId UnitsC (uName u) st2 of
                        (Inl e, st3) \<Rightarrow> (Some (ctx e), st3)
                      | (Inr c, st3) \<Rightarrow>
                          if c > 0 then
                            (Some (ctx (Errorf ''cannot remove unit; something smells bad'' [])), st3)
                          else (map_option ctx (onAbort err None), st3)))))"

subsection \<open>The endpoint of one metadata entry\<close>

definition endpoint :: "serviceDoc \<Rightarrow> RelationRole \<Rightarrow> string \<times> charmRelation \<Rightarrow> Endpoint" where
  "endpoint s role e =
     \<lparr>ServiceName = Name s, Interface = relInterface (snd e), RelationName = fst e,
      RelationRole = role, RelationScope = relScope (snd e)\<rparr>"

subsection \<open>The store after the cascade to Dying\<close>

text \<open>
  The contract of \<open>EnsureDying\<close> in the words of the specification: the service is
  Dying (its revision advanced by the transaction runner) and every Alive relation the
  service participates in is Dying; everything else is as before. \<open>dyingRelOp\<close> is the
  operation that the loop appends for a relation key.
\<close>

definition cascadeDying :: "string \<Rightarrow> store \<Rightarrow> store" where
  "cascadeDying name st =
     st\<lparr>services :=
          map (\<lambda>d. if Name d = name then d\<lparr>Life := Dying, TxnRevno := TxnRevno d + 1\<rparr> else d)
            (services st),
        relations :=
          map (\<lambda>r. if list_ex (\<lambda>e. ServiceName e = name) (rEndpoints r) \<and> rLife r = Alive
                    then r\<lparr>rLife := Dying\<rparr> else r)
            (relations st)\<rparr>"

definition dyingRelOp :: "string \<Rightarrow> Op" where
  "dyingRelOp k =
     \<lparr>C = RelationsC, Id' = k, Assert = Query isAlive, Insert = None,
      Update = Some (MSet [(''life'', VLife Dying)]), Remove = False\<rparr>"

subsection \<open>An example State\<close>

text \<open>
  The scenario of the specification: the service ``wordpress'', Alive, with no unit and
  one Alive relation to ``mysql''; ``mysql'' is Dying and has one unit; ``logging'' has
  a subordinate charm.
\<close>

definition wordpress :: serviceDoc where
  "wordpress =
     \<lparr>Name = ''wordpress'', CharmURL = Some ''cs:wordpress'', ForceCharm = False, Life = Alive,
      UnitSeq = 0, UnitCount = 0, RelationCount = 1, Exposed = False, TxnRevno = 2\<rparr>"

definition mysql :: serviceDoc where
  "mysql =
     \<lparr>Name = ''mysql'', CharmURL = Some ''cs:mysql'', ForceCharm = False, Life = Dying,
      UnitSeq = 1, UnitCount = 1, RelationCount = 1, Exposed = False, TxnRevno = 5\<rparr>"

definition logging :: serviceDoc where
  "logging =
     \<lparr>Name = ''logging'', CharmURL = Some ''cs:logging'', ForceCharm = False, Life = Alive,
      UnitSeq = 0, UnitCount = 0, RelationCount = 0, Exposed = False, TxnRevno = 2\<rparr>"

definition wordpress_mysql :: relationDoc where
  "wordpress_mysql =
     \<lparr>rKey = ''wordpress:db mysql:server'',
      rEndpoints =
        [\<lparr>ServiceName = ''wordpress'', Interface = ''mysql'', RelationName = ''db'',
          RelationRole = RoleRequirer, RelationScope = ScopeGlobal\<rparr>,
         \<lparr>ServiceName = ''mysql'', Interface = ''mysql'', RelationName = ''server'',
          RelationRole = RoleProvider, RelationScope = ScopeGlobal\<rparr>],
      rLife = Alive\<rparr>"

definition mysql_0 :: unitDoc where
  "mysql_0 =
     \<lparr>uName = ''mysql/0'', uService = ''mysql'', uLife = Dead, uStatus = ''stopped'',
      uPrincipal = [], uMachineId = [], uSubordinates = []\<rparr>"

definition mysql_7 :: unitDoc where
  "mysql_7 =
     \<lparr>uName = ''mysql/7'', uService = ''mysql'', uLife = Dead, uStatus = ''stopped'',
      uPrincipal = [], uMachineId = [], uSubordinates = []\<rparr>"

definition wordpressCharm :: Charm where
  "wordpressCharm =
     \<lparr>URL = ''cs:wordpress'',
      Meta = \<lparr>Peers = [(''loadbalancer'', \<lparr>relInterface = ''reversenginx'', relScope = ScopeGlobal\<rparr>)],
              Provides = [(''url'', \<lparr>relInterface = ''http'', relScope = ScopeGlobal\<rparr>)],
              Requires = [(''db'', \<lparr>relInterface = ''mysql'', relScope = ScopeGlobal\<rparr>)],
              Subordinate = False\<rparr>\<rparr>"

definition loggingCharm :: Charm where
  "loggingCharm =
     \<lparr>URL = ''cs:logging'',
      Meta = \<lparr>Peers = [], Provides = [],
              Requires = [(''info'', \<lparr>relInterface = ''juju-info'', relScope = ScopeContainer\<rparr>)],
              Subordinate = True\<rparr>\<rparr>"

definition exampleState :: State where
  "exampleState =
     \<lparr>db = \<lparr>services = [wordpress, mysql, logging], units = [mysql_0],
             relations = [wordpress_mysql]\<rparr>,
      charms = [wordpressCharm, loggingCharm], faults = [], trace = []\<rparr>"

lemmas example_defs = exampleState_def wordpress_def mysql_def logging_def wordpress_mysql_def
  mysql_0_def mysql_7_def wordpressCharm_def loggingCharm_def

section \<open>Properties of the service operations\<close>

subsection \<open>Store accesses with a working driver\<close>

lemma access_nofault: "faults st = [] \<Longrightarrow> access a st = (None, st\<lparr>trace := trace st @ [a]\<rparr>)"
  by (simp add: access_def)

lemma Run_nofault:
  "faults st = [] \<Longrightarrow>
   Run ops st =
     (case txnRun ops (db st) of
        None \<Rightarrow> (Some ErrAborted, st\<lparr>trace := trace st @ [Txn ops]\<rparr>)
      | Some db' \<Rightarrow> (None, st\<lparr>trace := trace st @ [Txn ops], db := db'\<rparr>))"
  by (simp add: Run_def access_nofault split: option.splits)

text \<open>
  Claim C7. With a working store driver, \<open>setExposed\<close> (and so \<open>SetExposed\<close> and
  \<open>ClearExposed\<close>) submits one transaction with the single operation "assert Life ==
  Alive, set exposed" on the service. When the stored service is not Alive at that
  moment (Dying, Dead or gone) the call fails with the "not alive" error and the store
  and the cached document stay as they are. Otherwise the transaction commits: the
  service's \<open>exposed\<close> field has the new value (and the runner has advanced the
  document's revision), every other field and every other document is as before, and
  the cached flag is updated.
\<close>

theorem setExposed_contract:
  assumes "faults st = []"
  shows "setExposed s exposed st =
     (if \<exists>d. List.find (\<lambda>d. Name d = Name s) (services (db st)) = Some d \<and> Life d = Alive
      then (None, s\<lparr>Exposed := exposed\<rparr>,
            st\<lparr>trace := trace st @
                 [Txn [\<lparr>C = ServicesC, Id' = Name s, Assert = Query [(''life'', IsVal (VLife Alive))],
                        Insert = None, Update = Some (MSet [(''exposed'', VBool exposed)]),
                        Remove = False\<rparr>]],
               db := (db st)\<lparr>services :=
                        map (\<lambda>d. if Name d = Name s
                                  then d\<lparr>Exposed := exposed, TxnRevno := TxnRevno d + 1\<rparr> else d)
                          (services (db st))\<rparr>\<rparr>)
      else (Some (Errorf ''cannot set exposed flag for service %q to %v: %v''
                    [AStr (Name s), ABool exposed, AErr (ErrorsNew ''not alive'')]),
            s,
            st\<lparr>trace := trace st @
                 [Txn [\<lparr>C = ServicesC, Id' = Name s, Assert = Query [(''life'', IsVal (VLife Alive))],
                        Insert = None, Update = Some (MSet [(''exposed'', VBool exposed)]),
                        Remove = False\<rparr>]]\<rparr>))"
  using assms
  by (cases "List.find (\<lambda>d. Name d = Name s) (services (db st))")
     (auto simp: setExposed_def setExposed_ops_def Run_nofault txnRun_def assertsHold_def applyOp_def
        isAlive_def onAbort_def errNotAlive_def)

theorem setExposed_contract_witness:
  "faults exampleState = [] \<and>
   fst (setExposed wordpress True exampleState) = None \<and>
   map Exposed (services (db (snd (snd (setExposed wordpress True exampleState))))) = [True, False, False] \<and>
   fst (setExposed mysql True exampleState) =
     Some (Errorf ''cannot set exposed flag for service %q to %v: %v''
             [AStr ''mysql'', ABool True, AErr (ErrorsNew ''not alive'')]) \<and>
   db (snd (snd (setExposed mysql True exampleState))) = db exampleState"
proof -
  have f: "faults exampleState = []" by (simp add: exampleState_def)
  show ?thesis
    using f setExposed_contract [OF f, of wordpress True] setExposed_contract [OF f, of mysql True]
    by (simp add: example_defs)
qed

lemma FindId_nofault:
  "faults st = [] \<Longrightarrow>
   FindId c i st =
     ((case lookupDoc (db st) c i of None \<Rightarrow> Inl ErrNotFound | Some d \<Rightarrow> Inr d),
      st\<lparr>trace := trace st @ [FindOne c i]\<rparr>)"
  by (simp add: FindId_def access_nofault split: option.splits)

lemma CountId_nofault:
  "faults st = [] \<Longrightarrow>
   CountId c i st =
     (Inr (case lookupDoc (db st) c i of None \<Rightarrow> 0 | Some d \<Rightarrow> 1),
      st\<lparr>trace := trace st @ [CountDocs c i]\<rparr>)"
  by (simp add: CountId_def access_nofault split: option.splits)

text \<open>
  Claim C9. \<open>setExposed\<close> (hence \<open>SetExposed\<close> and \<open>ClearExposed\<close>), \<open>SetCharm\<close> and
  \<open>EnsureDead\<close> return an error exactly when their store submission does (for
  \<open>EnsureDead\<close>, the submission is the \<open>ensureDead\<close> helper); then the cached document
  is the one before the call. The cached \<open>Exposed\<close>, \<open>CharmURL\<close>, \<open>ForceCharm\<close> and
  \<open>Life\<close> fields change only when the submission has succeeded.
\<close>

theorem cache_unchanged_on_error:
  "((fst (setExposed s exposed st) = None) = (fst (Run (setExposed_ops s exposed) st) = None)) \<and>
   (fst (setExposed s exposed st) \<noteq> None \<longrightarrow> fst (snd (setExposed s exposed st)) = s) \<and>
   (fst (setExposed s exposed st) = None \<longrightarrow>
      fst (snd (setExposed s exposed st)) = s\<lparr>Exposed := exposed\<rparr>) \<and>
   SetExposed s st = setExposed s True st \<and> ClearExposed s st = setExposed s False st \<and>
   ((fst (SetCharm s ch force st) = None) = (fst (Run (SetCharm_ops s ch force) st) = None)) \<and>
   (fst (SetCharm s ch force st) \<noteq> None \<longrightarrow> fst (snd (SetCharm s ch force st)) = s) \<and>
   (fst (SetCharm s ch force st) = None \<longrightarrow>
      fst (snd (SetCharm s ch force st)) = s\<lparr>CharmURL := Some (URL ch), ForceCharm := force\<rparr>) \<and>
   ((fst (EnsureDead s st) = None) =
      (fst (ensureDead ServicesC (Name s) ''service'' (EnsureDead_assertOps s)
              ''service still has units and/or relations'' st) = None)) \<and>
   (fst (EnsureDead s st) \<noteq> None \<longrightarrow> fst (snd (EnsureDead s st)) = s) \<and>
   (fst (EnsureDead s st) = None \<longrightarrow> fst (snd (EnsureDead s st)) = s\<lparr>Life := Dead\<rparr>)"
  by (auto simp: setExposed_def SetCharm_def EnsureDead_def SetExposed_def ClearExposed_def
      split: prod.splits option.splits)

theorem cache_unchanged_on_error_witness:
  "fst (setExposed mysql True exampleState) \<noteq> None \<and>
   fst (snd (setExposed mysql True exampleState)) = mysql \<and>
   fst (SetCharm mysql wordpressCharm True exampleState) \<noteq> None \<and>
   fst (snd (SetCharm mysql wordpressCharm True exampleState)) = mysql \<and>
   fst (EnsureDead mysql exampleState) \<noteq> None \<and>
   fst (snd (EnsureDead mysql exampleState)) = mysql \<and>
   fst (setExposed wordpress True exampleState) = None \<and>
   fst (snd (setExposed wordpress True exampleState)) = wordpress\<lparr>Exposed := True\<rparr> \<and>
   fst (SetCharm wordpress loggingCharm True exampleState) = None \<and>
   fst (EnsureDead logging exampleState) = None"
proof -
  have f: "faults exampleState = []" by (simp add: exampleState_def)
  have 1: "fst (setExposed mysql True exampleState) \<noteq> None"
    by (simp add: setExposed_def setExposed_ops_def Run_def access_def txnRun_def assertsHold_def
        isAlive_def example_defs)
  have 2: "fst (SetCharm mysql wordpressCharm True exampleState) \<noteq> None"
    by (simp add: SetCharm_def SetCharm_ops_def Run_def access_def txnRun_def assertsHold_def
        isAlive_def example_defs)
  have 3: "fst (EnsureDead mysql exampleState) \<noteq> None"
    by (simp add: EnsureDead_def EnsureDead_assertOps_def ensureDead_def Run_def FindId_def
        access_def txnRun_def assertsHold_def Let_def example_defs)
  have 4: "fst (setExposed wordpress True exampleState) = None"
    by (simp add: setExposed_def setExposed_ops_def Run_def access_def txnRun_def assertsHold_def
        isAlive_def example_defs)
  have 5: "fst (SetCharm wordpress loggingCharm True exampleState) = None"
    by (simp add: SetCharm_def SetCharm_ops_def Run_def access_def txnRun_def assertsHold_def
        isAlive_def example_defs)
  have 6: "fst (EnsureDead logging exampleState) = None"
    by (simp add: EnsureDead_def EnsureDead_assertOps_def ensureDead_def Run_def access_def
        txnRun_def assertsHold_def Let_def example_defs)
  show ?thesis
    using 1 2 3 4 5 6
      cache_unchanged_on_error [of mysql True exampleState wordpressCharm True]
      cache_unchanged_on_error [of wordpress True exampleState loggingCharm True]
    by blast
qed

text \<open>
  Claim C5. When the service's charm resolves and is a subordinate charm, \<open>addUnitOps\<close>
  with an empty principal name fails with "service is subordinate", and so does
  \<open>AddUnit\<close> (its error carries the context "cannot add unit to service ..."); when the
  charm is not subordinate and a principal name is given, \<open>addUnitOps\<close> fails with
  "service is not a subordinate". In each case the State is returned as it was: no
  access to the store has been made, the unit sequence is not incremented and no
  transaction is submitted.
\<close>

theorem addUnitOps_subordinate_mismatch:
  assumes "State_Charm (CharmURL s) st = Inr ch"
  shows "(Subordinate (Meta ch) \<longrightarrow>
            addUnitOps s [] strictSubordinates st = (Inl (Errorf ''service is subordinate'' []), st) \<and>
            AddUnit IsUnitName s st =
              (Inl (ErrorContextf ''cannot add unit to service %q'' [AStr (Name s)]
                      (Errorf ''service is subordinate'' [])), st)) \<and>
         (\<not> Subordinate (Meta ch) \<and> principalName \<noteq> [] \<longrightarrow>
            addUnitOps s principalName strictSubordinates st =
              (Inl (Errorf ''service is not a subordinate'' []), st))"
  using assms by (simp add: addUnitOps_def AddUnit_def Service_Charm_def)

theorem addUnitOps_subordinate_mismatch_witness:
  "State_Charm (CharmURL logging) exampleState = Inr loggingCharm \<and>
   Subordinate (Meta loggingCharm) \<and>
   addUnitOps logging [] False exampleState = (Inl (Errorf ''service is subordinate'' []), exampleState) \<and>
   AddUnit (\<lambda>n. True) logging exampleState =
     (Inl (ErrorContextf ''cannot add unit to service %q'' [AStr ''logging'']
             (Errorf ''service is subordinate'' [])), exampleState) \<and>
   State_Charm (CharmURL wordpress) exampleState = Inr wordpressCharm \<and>
   \<not> Subordinate (Meta wordpressCharm) \<and>
   addUnitOps wordpress ''mysql/0'' False exampleState =
     (Inl (Errorf ''service is not a subordinate'' []), exampleState)"
proof -
  have l: "State_Charm (CharmURL logging) exampleState = Inr loggingCharm"
    by (simp add: State_Charm_def example_defs)
  have w: "State_Charm (CharmURL wordpress) exampleState = Inr wordpressCharm"
    by (simp add: State_Charm_def example_defs)
  show ?thesis
    using l w
      addUnitOps_subordinate_mismatch [OF l, where strictSubordinates = False
        and IsUnitName = "\<lambda>n. True" and principalName = "[]"]
      addUnitOps_subordinate_mismatch [OF w, where strictSubordinates = False
        and IsUnitName = "\<lambda>n. True" and principalName = "''mysql/0''"]
    by (simp add: loggingCharm_def wordpressCharm_def logging_def)
qed

text \<open>
  Claim C8. \<open>Endpoints\<close> is computed from the metadata of the service's charm: one
  endpoint with role Peer per entry of \<open>Peers\<close>, one with role Provider per entry of
  \<open>Provides\<close>, one with role Requirer per entry of \<open>Requires\<close>, and the implicit
  endpoint with relation name and interface "juju-info", role Provider and global scope.
  The result does not depend on the store.
\<close>

theorem Endpoints_derived:
  "Endpoints s st =
     (case State_Charm (CharmURL s) st of
        Inl err \<Rightarrow> Inl err
      | Inr ch \<Rightarrow>
          Inr (map (endpoint s RolePeer) (Peers (Meta ch)) @
               map (endpoint s RoleProvider) (Provides (Meta ch)) @
               map (endpoint s RoleRequirer) (Requires (Meta ch)) @
               [\<lparr>ServiceName = Name s, Interface = ''juju-info'', RelationName = ''juju-info'',
                 RelationRole = RoleProvider, RelationScope = ScopeGlobal\<rparr>]))
   \<and> Endpoints s (st\<lparr>db := anydb\<rparr>) = Endpoints s st"
  by (auto simp: Endpoints_def Service_Charm_def State_Charm_def collect_def endpoint_def
      split_def Let_def split: sum.splits option.splits)

theorem Endpoints_derived_witness:
  "Endpoints wordpress exampleState =
     Inr [\<lparr>ServiceName = ''wordpress'', Interface = ''reversenginx'', RelationName = ''loadbalancer'',
           RelationRole = RolePeer, RelationScope = ScopeGlobal\<rparr>,
          \<lparr>ServiceName = ''wordpress'', Interface = ''http'', RelationName = ''url'',
           RelationRole = RoleProvider, RelationScope = ScopeGlobal\<rparr>,
          \<lparr>ServiceName = ''wordpress'', Interface = ''mysql'', RelationName = ''db'',
           RelationRole = RoleRequirer, RelationScope = ScopeGlobal\<rparr>,
          \<lparr>ServiceName = ''wordpress'', Interface = ''juju-info'', RelationName = ''juju-info'',
           RelationRole = RoleProvider, RelationScope = ScopeGlobal\<rparr>]"
  using Endpoints_derived [of wordpress exampleState "db exampleState"]
  by (simp add: State_Charm_def endpoint_def example_defs)

lemma Apply_nofault:
  "faults st = [] \<Longrightarrow>
   Apply name change st =
     (case List.find (\<lambda>d. Name d = name) (services (db st)) of
        None \<Rightarrow> (Inl ErrNotFound, st\<lparr>trace := trace st @ [FindAndModify ServicesC name]\<rparr>)
      | Some old \<Rightarrow>
          (Inr (if chReturnNew change
                then (case applyUpdate (chUpdate change) (ServiceD old) of ServiceD d \<Rightarrow> d | _ \<Rightarrow> old)
                else old),
           st\<lparr>trace := trace st @ [FindAndModify ServicesC name],
              db := modifyDoc ServicesC name (applyUpdate (chUpdate change)) (db st)\<rparr>))"
  by (simp add: Apply_def access_nofault Let_def split: option.splits)

text \<open>
  Claim C3, amended. With a working store driver and the service in the store,
  \<open>newUnitName\<close> makes a single find-and-modify access that increments the service's
  \<open>unitseq\<close> by one, and the name is the service name, "/" and the decimal value that
  the counter had before the increment.
\<close>

theorem newUnitName_pre_increment:
  assumes "faults st = []" and "List.find (\<lambda>d. Name d = Name s) (services (db st)) = Some d"
  shows "newUnitName s st =
     (Inr (Name s @ ''/'' @ Itoa (UnitSeq d)),
      st\<lparr>trace := trace st @ [FindAndModify ServicesC (Name s)],
         db := (db st)\<lparr>services :=
                  map (\<lambda>d. if Name d = Name s then d\<lparr>UnitSeq := UnitSeq d + 1\<rparr> else d)
                    (services (db st))\<rparr>\<rparr>)"
  using assms by (simp add: newUnitName_def Apply_nofault)

theorem newUnitName_pre_increment_witness:
  "faults exampleState = [] \<and>
   List.find (\<lambda>d. Name d = Name mysql) (services (db exampleState)) = Some mysql \<and>
   fst (newUnitName mysql exampleState) = Inr ''mysql/1'' \<and>
   map UnitSeq (services (db (snd (newUnitName mysql exampleState)))) = [0, 2, 0]"
proof -
  have f: "faults exampleState = []" by (simp add: exampleState_def)
  have d: "List.find (\<lambda>d. Name d = Name mysql) (services (db exampleState)) = Some mysql"
    by (simp add: example_defs)
  show ?thesis
    using f d newUnitName_pre_increment [OF f d]
    by (simp add: example_defs Itoa_def digits.simps)
qed

text \<open>
  Claim C3 as stated fails: for the service ``wordpress'' whose counter is 0 the
  allocated name is ``wordpress/0'', while the value of the counter after the increment
  is 1.
\<close>

theorem newUnitName_counterexample:
  "fst (newUnitName wordpress exampleState) = Inr ''wordpress/0'' \<and>
   map UnitSeq (services (db (snd (newUnitName wordpress exampleState)))) = [1, 1, 0] \<and>
   ''wordpress/0'' \<noteq> Name wordpress @ ''/'' @ Itoa 1"
  by (simp add: newUnitName_def Apply_def access_def Let_def example_defs Itoa_def digits.simps)

text \<open>
  Claim C2. With a working store driver, when the stored service is not yet Dead and
  its unit count or its relation count is not zero, \<open>EnsureDead\<close> submits one
  transaction whose first operation asserts \<open>unitcount == 0\<close> and
  \<open>relationcount == 0\<close>, reads the service once, and returns the error "service still
  has units and/or relations"; the store and the cached document stay as they are and
  nothing is submitted a second time.
\<close>

theorem EnsureDead_has_dependents:
  assumes "faults st = []"
    and "List.find (\<lambda>d. Name d = Name s) (services (db st)) = Some d"
    and "UnitCount d \<noteq> 0 \<or> RelationCount d \<noteq> 0"
    and "Life d \<noteq> Dead"
  shows "EnsureDead s st =
     (Some (ErrorContextf ''cannot finish termination of %s %#v'' [AStr ''service'', AStr (Name s)]
              (Errorf ''service still has units and/or relations'' [])),
      s,
      st\<lparr>trace := trace st @
           [Txn [\<lparr>C = ServicesC, Id' = Name s,
                  Assert = Query [(''unitcount'', IsVal (VInt 0)), (''relationcount'', IsVal (VInt 0))],
                  Insert = None, Update = None, Remove = False\<rparr>,
                 \<lparr>C = ServicesC, Id' = Name s, Assert = NoAssert, Insert = None,
                  Update = Some (MSet [(''life'', VLife Dead)]), Remove = False\<rparr>],
            FindOne ServicesC (Name s)]\<rparr>)"
  using assms
  by (auto simp: EnsureDead_def EnsureDead_assertOps_def ensureDead_def Run_nofault FindId_nofault
      txnRun_def assertsHold_def Let_def)

theorem EnsureDead_has_dependents_witness:
  "faults exampleState = [] \<and>
   List.find (\<lambda>d. Name d = Name mysql) (services (db exampleState)) = Some mysql \<and>
   UnitCount mysql = 1 \<and> Life mysql = Dying \<and>
   fst (EnsureDead mysql exampleState) =
     Some (ErrorContextf ''cannot finish termination of %s %#v'' [AStr ''service'', AStr ''mysql'']
             (Errorf ''service still has units and/or relations'' [])) \<and>
   fst (snd (EnsureDead mysql exampleState)) = mysql \<and>
   db (snd (snd (EnsureDead mysql exampleState))) = db exampleState"
proof -
  have f: "faults exampleState = []" by (simp add: exampleState_def)
  have d: "List.find (\<lambda>d. Name d = Name mysql) (services (db exampleState)) = Some mysql"
    by (simp add: example_defs)
  have c: "UnitCount mysql \<noteq> 0 \<or> RelationCount mysql \<noteq> 0" by (simp add: mysql_def)
  have l: "Life mysql \<noteq> Dead" by (simp add: mysql_def)
  show ?thesis
    using f d EnsureDead_has_dependents [OF f d c l]
    by (simp add: mysql_def)
qed

text \<open>
  Claim C6. \<open>RemoveUnit\<close> returns the error "unit is not dead" when the unit's Life is
  not Dead, and an error when the unit belongs to another service, in both cases with
  the State as it was (no transaction is submitted). When the removal transaction
  aborts, \<open>RemoveUnit\<close> counts the unit documents with that name and returns success if
  there is none and the error "cannot remove unit; something smells bad" otherwise; the
  transaction is submitted once.
\<close>

theorem RemoveUnit_contract:
  "(uLife u \<noteq> Dead \<longrightarrow>
      RemoveUnit un s u st =
        (Some (ErrorContextf ''cannot remove unit %q'' [AStr (uName u)] (ErrorsNew ''unit is not dead'')),
         st)) \<and>
   (uLife u = Dead \<and> uService u \<noteq> Name s \<longrightarrow>
      RemoveUnit un s u st =
        (Some (ErrorContextf ''cannot remove unit %q'' [AStr (uName u)]
                 (Errorf ''unit is not assigned to service %q'' [AStr (Name s)])),
         st)) \<and>
   (uLife u = Dead \<and> uService u = Name s \<and>
    (if uMachineId u \<noteq> [] then un u st else (None, st)) = (None, st1) \<and>
    faults st1 = [] \<and> txnRun (RemoveUnit_ops s u) (db st1) = None \<longrightarrow>
      RemoveUnit un s u st =
        ((if lookupDoc (db st1) UnitsC (uName u) = None then None
          else Some (ErrorContextf ''cannot remove unit %q'' [AStr (uName u)]
                       (Errorf ''cannot remove unit; something smells bad'' []))),
         st1\<lparr>trace := trace st1 @ [Txn (RemoveUnit_ops s u), CountDocs UnitsC (uName u)]\<rparr>))"
  by (auto simp: RemoveUnit_def Run_nofault CountId_nofault onAbort_def Let_def
      split: option.splits)

theorem RemoveUnit_contract_witness:
  "fst (RemoveUnit (\<lambda>u st. (None, st)) mysql (mysql_0\<lparr>uLife := Dying\<rparr>) exampleState) =
     Some (ErrorContextf ''cannot remove unit %q'' [AStr ''mysql/0''] (ErrorsNew ''unit is not dead'')) \<and>
   snd (RemoveUnit (\<lambda>u st. (None, st)) mysql (mysql_0\<lparr>uLife := Dying\<rparr>) exampleState) = exampleState \<and>
   RemoveUnit (\<lambda>u st. (None, st)) wordpress mysql_0 exampleState =
     (Some (ErrorContextf ''cannot remove unit %q'' [AStr ''mysql/0'']
              (Errorf ''unit is not assigned to service %q'' [AStr ''wordpress''])), exampleState) \<and>
   txnRun (RemoveUnit_ops mysql mysql_7) (db exampleState) = None \<and>
   lookupDoc (db exampleState) UnitsC (uName mysql_7) = None \<and>
   RemoveUnit (\<lambda>u st. (None, st)) mysql mysql_7 exampleState =
     (None, exampleState\<lparr>trace := [Txn (RemoveUnit_ops mysql mysql_7), CountDocs UnitsC ''mysql/7'']\<rparr>)"
proof -
  have a: "txnRun (RemoveUnit_ops mysql mysql_7) (db exampleState) = None"
    by (simp add: txnRun_def assertsHold_def RemoveUnit_ops_def example_defs)
  have l: "lookupDoc (db exampleState) UnitsC (uName mysql_7) = None"
    by (simp add: example_defs)
  show ?thesis
    using a l
      RemoveUnit_contract [of "mysql_0\<lparr>uLife := Dying\<rparr>" "\<lambda>u st. (None, st)" mysql exampleState exampleState]
      RemoveUnit_contract [of mysql_0 "\<lambda>u st. (None, st)" wordpress exampleState exampleState]
      RemoveUnit_contract [of mysql_7 "\<lambda>u st. (None, st)" mysql exampleState exampleState]
    by (simp add: example_defs)
qed

subsection \<open>EnsureDying\<close>

lemma EnsureDying_ops_alt:
  "EnsureDying_ops s rels =
     \<lparr>C = ServicesC, Id' = Name s,
      Assert = Query [(''life'', IsVal (VLife Alive)), (''txn-revno'', IsVal (VInt (TxnRevno s)))],
      Insert = None, Update = Some (MSet [(''life'', VLife Dying)]), Remove = False\<rparr>
     # map dyingRelOp (map rKey (filter (\<lambda>rel. rLife rel = Alive) rels))"
  by (simp add: EnsureDying_ops_def dyingRelOp_def comp_def)

lemma applyOp_dyingRelOp:
  "applyOp (dyingRelOp k) st =
     st\<lparr>relations := map (\<lambda>r. if rKey r = k then r\<lparr>rLife := Dying\<rparr> else r) (relations st)\<rparr>"
  by (simp add: applyOp_def dyingRelOp_def)

lemma fold_dyingRelOp:
  "fold applyOp (map dyingRelOp ks) st =
     st\<lparr>relations := map (\<lambda>r. if rKey r \<in> set ks then r\<lparr>rLife := Dying\<rparr> else r) (relations st)\<rparr>"
proof (induction ks arbitrary: st)
  case Nil
  then show ?case by simp
next
  case (Cons k ks)
  show ?case
    by (simp add: Cons.IH applyOp_dyingRelOp comp_def)
qed

lemma find_distinct:
  "distinct (map f xs) \<Longrightarrow> x \<in> set xs \<Longrightarrow> List.find (\<lambda>y. f y = f x) xs = Some x"
  by (induction xs) (auto simp: image_iff)

lemma assertsHold_dyingRelOps:
  assumes "distinct (map rKey (relations st))"
    and "\<forall>r\<in>set rs. r \<in> set (relations st) \<and> rLife r = Alive"
  shows "assertsHold (map dyingRelOp (map rKey rs)) st"
  using assms
  by (auto simp: assertsHold_def list_all_iff dyingRelOp_def isAlive_def find_distinct)

lemma FindRelations_nofault:
  "faults st = [] \<Longrightarrow>
   Relations s st =
     (Inr (relationsOf (Name s) (db st)), st\<lparr>trace := trace st @ [FindAll RelationsC (Name s)]\<rparr>)"
  by (simp add: Relations_def FindRelations_def access_nofault)

lemma Refresh_nofault:
  "faults st = [] \<Longrightarrow> List.find (\<lambda>x. Name x = Name s) (services (db st)) = Some d \<Longrightarrow>
   Refresh s st = (None, d, st\<lparr>trace := trace st @ [FindOne ServicesC (Name s)]\<rparr>)"
  by (simp add: Refresh_def FindId_nofault)

lemma EnsureDying_loop_not_Alive:
  "Life s \<noteq> Alive \<Longrightarrow> EnsureDying_loop n s st = Some (None, s, st)"
  by (cases n) simp_all

lemma find_Name: "List.find (\<lambda>x. Name x = n) xs = Some d \<Longrightarrow> Name d = n"
  by (auto simp: find_Some_iff)

lemma cascade_effect:
  assumes "distinct (map rKey (relations st))"
  shows "fold applyOp (EnsureDying_ops s (relationsOf (Name s) st)) st = cascadeDying (Name s) st"
proof -
  let ?ks = "map rKey (filter (\<lambda>rel. rLife rel = Alive) (relationsOf (Name s) st))"
  have key: "\<And>r. r \<in> set (relations st) \<Longrightarrow>
      rKey r \<in> set ?ks \<longleftrightarrow> list_ex (\<lambda>e. ServiceName e = Name s) (rEndpoints r) \<and> rLife r = Alive"
  proof -
    fix r assume r: "r \<in> set (relations st)"
    show "rKey r \<in> set ?ks \<longleftrightarrow> list_ex (\<lambda>e. ServiceName e = Name s) (rEndpoints r) \<and> rLife r = Alive"
    proof
      assume "rKey r \<in> set ?ks"
      then obtain r' where r': "r' \<in> set (relations st)" "rKey r' = rKey r"
        "list_ex (\<lambda>e. ServiceName e = Name s) (rEndpoints r')" "rLife r' = Alive"
        by (auto simp: relationsOf_def)
      from assms r r'(1,2) have "r' = r" by (meson distinct_map inj_onD)
      with r' show "list_ex (\<lambda>e. ServiceName e = Name s) (rEndpoints r) \<and> rLife r = Alive" by simp
    next
      assume "list_ex (\<lambda>e. ServiceName e = Name s) (rEndpoints r) \<and> rLife r = Alive"
      with r show "rKey r \<in> set ?ks" by (auto simp: relationsOf_def)
    qed
  qed
  have "map (\<lambda>r. if rKey r \<in> set ?ks then r\<lparr>rLife := Dying\<rparr> else r) (relations st)
      = map (\<lambda>r. if list_ex (\<lambda>e. ServiceName e = Name s) (rEndpoints r) \<and> rLife r = Alive
                then r\<lparr>rLife := Dying\<rparr> else r) (relations st)"
  proof (rule map_cong [OF refl])
    fix r assume r: "r \<in> set (relations st)"
    show "(if rKey r \<in> set ?ks then r\<lparr>rLife := Dying\<rparr> else r) =
          (if list_ex (\<lambda>e. ServiceName e = Name s) (rEndpoints r) \<and> rLife r = Alive
           then r\<lparr>rLife := Dying\<rparr> else r)"
      by (simp only: key [OF r])
  qed
  then have rel: "map (\<lambda>r. if rKey r \<in> set ?ks then r\<lparr>rLife := Dying\<rparr> else r) (relations st)
      = relations (cascadeDying (Name s) st)"
    by (simp add: cascadeDying_def)
  let ?svc = "\<lparr>C = ServicesC, Id' = Name s,
      Assert = Query [(''life'', IsVal (VLife Alive)), (''txn-revno'', IsVal (VInt (TxnRevno s)))],
      Insert = None, Update = Some (MSet [(''life'', VLife Dying)]), Remove = False\<rparr>"
  have svc: "applyOp ?svc st =
      st\<lparr>services :=
          map (\<lambda>d. if Name d = Name s then d\<lparr>Life := Dying, TxnRevno := TxnRevno d + 1\<rparr> else d)
            (services st)\<rparr>"
    by (simp add: applyOp_def)
  have "fold applyOp (EnsureDying_ops s (relationsOf (Name s) st)) st
        = fold applyOp (map dyingRelOp ?ks) (applyOp ?svc st)"
    by (simp only: EnsureDying_ops_alt fold_simps)
  also have "\<dots> = (applyOp ?svc st)\<lparr>relations :=
        map (\<lambda>r. if rKey r \<in> set ?ks then r\<lparr>rLife := Dying\<rparr> else r) (relations (applyOp ?svc st))\<rparr>"
    by (rule fold_dyingRelOp)
  also have "\<dots> = cascadeDying (Name s) st"
    unfolding svc using rel by (simp add: cascadeDying_def)
  finally show ?thesis .
qed

lemma asserts_in_sync:
  assumes "distinct (map rKey (relations st))"
    and "List.find (\<lambda>x. Name x = Name s) (services st) = Some d"
    and "Life d = Alive"
  shows "assertsHold (EnsureDying_ops s (relationsOf (Name s) st)) st \<longleftrightarrow> TxnRevno s = TxnRevno d"
proof -
  have "assertsHold (map dyingRelOp (map rKey (filter (\<lambda>rel. rLife rel = Alive) (relationsOf (Name s) st)))) st"
    by (rule assertsHold_dyingRelOps [OF assms(1)]) (auto simp: relationsOf_def)
  then show ?thesis
    using assms(2,3) by (auto simp: EnsureDying_ops_alt assertsHold_def)
qed

lemma asserts_not_Alive:
  assumes "List.find (\<lambda>x. Name x = Name s) (services st) = Some d" and "Life d \<noteq> Alive"
  shows "\<not> assertsHold (EnsureDying_ops s rels) st"
  using assms by (auto simp: EnsureDying_ops_def assertsHold_def)

lemma commit_in_sync:
  assumes "Life s = Alive" and "faults st = []"
    and "List.find (\<lambda>x. Name x = Name s) (services (db st)) = Some d"
    and "Life d = Alive" and "TxnRevno s = TxnRevno d"
    and "RelationCount s = int (length (relationsOf (Name s) (db st)))"
    and "distinct (map rKey (relations (db st)))"
  shows "EnsureDying_loop (Suc n) s st =
     Some (None, s\<lparr>Life := Dying\<rparr>,
           st\<lparr>trace := trace st @
                [FindAll RelationsC (Name s),
                 Txn (EnsureDying_ops s (relationsOf (Name s) (db st)))],
              db := cascadeDying (Name s) (db st)\<rparr>)"
proof -
  let ?st1 = "st\<lparr>trace := trace st @ [FindAll RelationsC (Name s)]\<rparr>"
  let ?ops = "EnsureDying_ops s (relationsOf (Name s) (db st))"
  have rel: "Relations s st = (Inr (relationsOf (Name s) (db st)), ?st1)"
    by (rule FindRelations_nofault [OF assms(2)])
  have f1: "faults ?st1 = []" using assms(2) by simp
  have "assertsHold ?ops (db st)"
    using asserts_in_sync [OF assms(7,3,4)] assms(5) by simp
  then have "txnRun ?ops (db ?st1) = Some (cascadeDying (Name s) (db st))"
    by (simp add: txnRun_def cascade_effect [OF assms(7)])
  then have run: "Run ?ops ?st1 =
      (None, st\<lparr>trace := trace st @ [FindAll RelationsC (Name s), Txn ?ops],
                db := cascadeDying (Name s) (db st)\<rparr>)"
    by (simp add: Run_nofault [OF f1])
  show ?thesis
    using assms(1,6) by (simp add: rel run EnsureDying_loop_not_Alive)
qed

lemma retry_after_refresh:
  assumes "faults st = []"
    and "List.find (\<lambda>x. Name x = Name s) (services (db st)) = Some d"
    and "Life d = Alive"
    and "RelationCount d = int (length (relationsOf (Name s) (db st)))"
    and "distinct (map rKey (relations (db st)))"
    and "db st1 = db st" and "faults st1 = []"
  shows "EnsureDying_loop (Suc n) d st1 =
     Some (None, d\<lparr>Life := Dying\<rparr>,
           st1\<lparr>trace := trace st1 @
                [FindAll RelationsC (Name s),
                 Txn (EnsureDying_ops d (relationsOf (Name s) (db st)))],
              db := cascadeDying (Name s) (db st)\<rparr>)"
proof -
  have n: "Name d = Name s" by (rule find_Name [OF assms(2)])
  show ?thesis
    using commit_in_sync [of d st1 d n] assms by (simp add: n)
qed

text \<open>
  Claim C1. \<open>EnsureDying\<close> on a service whose cached Life is Dying or Dead returns
  success and touches nothing. On a cached Alive service, with a working store driver:
  when the stored service is no longer Alive the call changes nothing in the store,
  refreshes the cache and returns success; when the stored service is Alive (its
  relation count being the number of its relations, relation keys being unique) the
  call commits exactly one transaction, whose first operation asserts that the service
  is Alive with the revision unchanged and sets its Life to Dying, and which holds, for
  every relation of the service whose Life is Alive, one operation asserting that the
  relation is Alive and setting its Life to Dying. A stale cache costs one refresh (and
  one aborted attempt when only the revision is stale) before that transaction.
\<close>

theorem EnsureDying_contract:
  "(Life s \<noteq> Alive \<longrightarrow> EnsureDying_loop n s st = Some (None, s, st)) \<and>
   (Life s = Alive \<and> faults st = [] \<and>
    List.find (\<lambda>x. Name x = Name s) (services (db st)) = Some d \<and> Life d \<noteq> Alive \<longrightarrow>
      EnsureDying_loop (Suc n) s st =
        Some (None, d,
              st\<lparr>trace := trace st @
                 (if RelationCount s \<noteq> int (length (relationsOf (Name s) (db st)))
                  then [FindAll RelationsC (Name s), FindOne ServicesC (Name s)]
                  else [FindAll RelationsC (Name s),
                        Txn (EnsureDying_ops s (relationsOf (Name s) (db st))),
                        FindOne ServicesC (Name s)])\<rparr>)) \<and>
   (Life s = Alive \<and> faults st = [] \<and>
    List.find (\<lambda>x. Name x = Name s) (services (db st)) = Some d \<and> Life d = Alive \<and>
    RelationCount d = int (length (relationsOf (Name s) (db st))) \<and>
    distinct (map rKey (relations (db st))) \<longrightarrow>
      EnsureDying_loop (Suc (Suc n)) s st =
        Some (None,
              (if RelationCount s = RelationCount d \<and> TxnRevno s = TxnRevno d
               then s\<lparr>Life := Dying\<rparr> else d\<lparr>Life := Dying\<rparr>),
              st\<lparr>trace := trace st @
                 (if RelationCount s \<noteq> RelationCount d
                  then [FindAll RelationsC (Name s), FindOne ServicesC (Name s)]
                  else if TxnRevno s \<noteq> TxnRevno d
                  then [FindAll RelationsC (Name s),
                        Txn (EnsureDying_ops s (relationsOf (Name s) (db st))),
                        FindOne ServicesC (Name s)]
                  else []) @
                 [FindAll RelationsC (Name s),
                  Txn (\<lparr>C = ServicesC, Id' = Name s,
                        Assert = Query [(''life'', IsVal (VLife Alive)),
                                        (''txn-revno'', IsVal (VInt (TxnRevno d)))],
                        Insert = None, Update = Some (MSet [(''life'', VLife Dying)]),
                        Remove = False\<rparr>
                       # map (\<lambda>rel. \<lparr>C = RelationsC, Id' = rKey rel,
                                      Assert = Query [(''life'', IsVal (VLife Alive))],
                                      Insert = None,
                                      Update = Some (MSet [(''life'', VLife Dying)]),
                                      Remove = False\<rparr>)
                           (filter (\<lambda>rel. rLife rel = Alive) (relationsOf (Name s) (db st))))],
                 db := cascadeDying (Name s) (db st)\<rparr>))"
proof (intro conjI impI)
  assume "Life s \<noteq> Alive"
  then show "EnsureDying_loop n s st = Some (None, s, st)"
    by (rule EnsureDying_loop_not_Alive)
next
  assume a: "Life s = Alive \<and> faults st = [] \<and>
    List.find (\<lambda>x. Name x = Name s) (services (db st)) = Some d \<and> Life d \<noteq> Alive"
  then have s: "Life s = Alive" and f: "faults st = []"
    and d: "List.find (\<lambda>x. Name x = Name s) (services (db st)) = Some d" and l: "Life d \<noteq> Alive"
    by simp_all
  let ?rels = "relationsOf (Name s) (db st)"
  let ?st1 = "st\<lparr>trace := trace st @ [FindAll RelationsC (Name s)]\<rparr>"
  have rel: "Relations s st = (Inr ?rels, ?st1)" by (rule FindRelations_nofault [OF f])
  have f1: "faults ?st1 = []" using f by simp
  have d1: "List.find (\<lambda>x. Name x = Name s) (services (db ?st1)) = Some d" using d by simp
  have ref1: "Refresh s ?st1 =
      (None, d, st\<lparr>trace := trace st @ [FindAll RelationsC (Name s), FindOne ServicesC (Name s)]\<rparr>)"
    using Refresh_nofault [OF f1 d1] by simp
  have "txnRun (EnsureDying_ops s ?rels) (db ?st1) = None"
    using asserts_not_Alive [OF d l, of ?rels] by (simp add: txnRun_def)
  let ?st2 = "st\<lparr>trace := trace st @ [FindAll RelationsC (Name s), Txn (EnsureDying_ops s ?rels)]\<rparr>"
  from \<open>txnRun (EnsureDying_ops s ?rels) (db ?st1) = None\<close>
  have run: "Run (EnsureDying_ops s ?rels) ?st1 = (Some ErrAborted, ?st2)"
    by (simp add: Run_nofault [OF f1])
  have f2: "faults ?st2 = []" using f by simp
  have d2: "List.find (\<lambda>x. Name x = Name s) (services (db ?st2)) = Some d" using d by simp
  have ref2: "Refresh s ?st2 =
      (None, d, st\<lparr>trace := trace st @ [FindAll RelationsC (Name s), Txn (EnsureDying_ops s ?rels),
                                          FindOne ServicesC (Name s)]\<rparr>)"
    using Refresh_nofault [OF f2 d2] by simp
  show "EnsureDying_loop (Suc n) s st =
        Some (None, d,
              st\<lparr>trace := trace st @
                 (if RelationCount s \<noteq> int (length ?rels)
                  then [FindAll RelationsC (Name s), FindOne ServicesC (Name s)]
                  else [FindAll RelationsC (Name s),
                        Txn (EnsureDying_ops s ?rels),
                        FindOne ServicesC (Name s)])\<rparr>)"
    using s l by (simp add: rel ref1 run ref2 EnsureDying_loop_not_Alive)
next
  assume a: "Life s = Alive \<and> faults st = [] \<and>
    List.find (\<lambda>x. Name x = Name s) (services (db st)) = Some d \<and> Life d = Alive \<and>
    RelationCount d = int (length (relationsOf (Name s) (db st))) \<and>
    distinct (map rKey (relations (db st)))"
  then have s: "Life s = Alive" and f: "faults st = []"
    and d: "List.find (\<lambda>x. Name x = Name s) (services (db st)) = Some d" and l: "Life d = Alive"
    and c: "RelationCount d = int (length (relationsOf (Name s) (db st)))"
    and dist: "distinct (map rKey (relations (db st)))"
    by simp_all
  let ?rels = "relationsOf (Name s) (db st)"
  let ?st1 = "st\<lparr>trace := trace st @ [FindAll RelationsC (Name s)]\<rparr>"
  have n: "Name d = Name s" by (rule find_Name [OF d])
  have ops: "\<And>x. TxnRevno x = TxnRevno d \<Longrightarrow> Name x = Name s \<Longrightarrow>
      EnsureDying_ops x ?rels =
        \<lparr>C = ServicesC, Id' = Name s,
          Assert = Query [(''life'', IsVal (VLife Alive)), (''txn-revno'', IsVal (VInt (TxnRevno d)))],
          Insert = None, Update = Some (MSet [(''life'', VLife Dying)]), Remove = False\<rparr>
        # map (\<lambda>rel. \<lparr>C = RelationsC, Id' = rKey rel,
                        Assert = Query [(''life'', IsVal (VLife Alive))], Insert = None,
                        Update = Some (MSet [(''life'', VLife Dying)]), Remove = False\<rparr>)
            (filter (\<lambda>rel. rLife rel = Alive) ?rels)"
    by (simp add: EnsureDying_ops_def isAlive_def)
  have rel: "Relations s st = (Inr ?rels, ?st1)" by (rule FindRelations_nofault [OF f])
  have f1: "faults ?st1 = []" using f by simp
  have d1: "List.find (\<lambda>x. Name x = Name s) (services (db ?st1)) = Some d" using d by simp
  show "EnsureDying_loop (Suc (Suc n)) s st =
        Some (None,
              (if RelationCount s = RelationCount d \<and> TxnRevno s = TxnRevno d
               then s\<lparr>Life := Dying\<rparr> else d\<lparr>Life := Dying\<rparr>),
              st\<lparr>trace := trace st @
                 (if RelationCount s \<noteq> RelationCount d
                  then [FindAll RelationsC (Name s), FindOne ServicesC (Name s)]
                  else if TxnRevno s \<noteq> TxnRevno d
                  then [FindAll RelationsC (Name s),
                        Txn (EnsureDying_ops s ?rels),
                        FindOne ServicesC (Name s)]
                  else []) @
                 [FindAll RelationsC (Name s),
                  Txn (\<lparr>C = ServicesC, Id' = Name s,
                        Assert = Query [(''life'', IsVal (VLife Alive)),
                                        (''txn-revno'', IsVal (VInt (TxnRevno d)))],
                        Insert = None, Update = Some (MSet [(''life'', VLife Dying)]),
                        Remove = False\<rparr>
                       # map (\<lambda>rel. \<lparr>C = RelationsC, Id' = rKey rel,
                                      Assert = Query [(''life'', IsVal (VLife Alive))],
                                      Insert = None,
                                      Update = Some (MSet [(''life'', VLife Dying)]),
                                      Remove = False\<rparr>)
                           (filter (\<lambda>rel. rLife rel = Alive) ?rels))],
                 db := cascadeDying (Name s) (db st)\<rparr>)"
  proof (cases "RelationCount s = RelationCount d")
    case False
    let ?st2 = "st\<lparr>trace := trace st @ [FindAll RelationsC (Name s), FindOne ServicesC (Name s)]\<rparr>"
    have ref1: "Refresh s ?st1 = (None, d, ?st2)"
      using Refresh_nofault [OF f1 d1] by simp
    have again: "EnsureDying_loop (Suc n) d ?st2 =
       Some (None, d\<lparr>Life := Dying\<rparr>,
             ?st2\<lparr>trace := trace ?st2 @ [FindAll RelationsC (Name s), Txn (EnsureDying_ops d ?rels)],
                  db := cascadeDying (Name s) (db st)\<rparr>)"
      by (rule retry_after_refresh [OF f d l c dist]) (simp_all add: f)
    have step: "EnsureDying_loop (Suc (Suc n)) s st = EnsureDying_loop (Suc n) d ?st2"
      using s False c by (subst EnsureDying_loop.simps(2)) (simp add: rel ref1)
    show ?thesis
      using False by (simp only: step again) (simp add: ops [OF refl n])
  next
    case True
    show ?thesis
    proof (cases "TxnRevno s = TxnRevno d")
      case rev: True
      have "EnsureDying_loop (Suc (Suc n)) s st =
         Some (None, s\<lparr>Life := Dying\<rparr>,
           st\<lparr>trace := trace st @ [FindAll RelationsC (Name s), Txn (EnsureDying_ops s ?rels)],
              db := cascadeDying (Name s) (db st)\<rparr>)"
        using True c by (intro commit_in_sync [OF s f d l rev _ dist]) simp
      then show ?thesis
        using True rev by (simp add: ops [OF rev refl])
    next
      case rev: False
      have "\<not> assertsHold (EnsureDying_ops s ?rels) (db st)"
        using asserts_in_sync [OF dist d l] rev by simp
      then have "txnRun (EnsureDying_ops s ?rels) (db ?st1) = None"
        by (simp add: txnRun_def)
      let ?st2 = "st\<lparr>trace := trace st @ [FindAll RelationsC (Name s), Txn (EnsureDying_ops s ?rels)]\<rparr>"
      let ?st3 = "st\<lparr>trace := trace st @ [FindAll RelationsC (Name s), Txn (EnsureDying_ops s ?rels),
                                         FindOne ServicesC (Name s)]\<rparr>"
      from \<open>txnRun (EnsureDying_ops s ?rels) (db ?st1) = None\<close>
      have run: "Run (EnsureDying_ops s ?rels) ?st1 = (Some ErrAborted, ?st2)"
        by (simp add: Run_nofault [OF f1])
      have f2: "faults ?st2 = []" using f by simp
      have d2: "List.find (\<lambda>x. Name x = Name s) (services (db ?st2)) = Some d" using d by simp
      have ref2: "Refresh s ?st2 = (None, d, ?st3)"
        using Refresh_nofault [OF f2 d2] by simp
      have again: "EnsureDying_loop (Suc n) d ?st3 =
         Some (None, d\<lparr>Life := Dying\<rparr>,
               ?st3\<lparr>trace := trace ?st3 @ [FindAll RelationsC (Name s), Txn (EnsureDying_ops d ?rels)],
                    db := cascadeDying (Name s) (db st)\<rparr>)"
        by (rule retry_after_refresh [OF f d l c dist]) (simp_all add: f)
      have step: "EnsureDying_loop (Suc (Suc n)) s st = EnsureDying_loop (Suc n) d ?st3"
        using s True c by (subst EnsureDying_loop.simps(2)) (simp add: rel run ref2)
      show ?thesis
        using True rev by (simp only: step again) (simp add: ops [OF refl n])
    qed
  qed
qed

theorem EnsureDying_contract_witness:
  "EnsureDying_loop 0 mysql exampleState = Some (None, mysql, exampleState) \<and>
   EnsureDying_loop (Suc 0) (mysql\<lparr>Life := Alive\<rparr>) exampleState =
     Some (None, mysql,
           exampleState\<lparr>trace :=
             [FindAll RelationsC ''mysql'',
              Txn (EnsureDying_ops (mysql\<lparr>Life := Alive\<rparr>) [wordpress_mysql]),
              FindOne ServicesC ''mysql'']\<rparr>) \<and>
   map_option (\<lambda>(r, s', st'). (r, s', map Life (services (db st')), map rLife (relations (db st'))))
     (EnsureDying_loop (Suc (Suc 0)) wordpress exampleState) =
     Some (None, wordpress\<lparr>Life := Dying\<rparr>, [Dying, Dying, Alive], [Dying]) \<and>
   map_option (\<lambda>(r, s', st'). (r, s', map Life (services (db st')), map rLife (relations (db st'))))
     (EnsureDying_loop (Suc (Suc 0)) (wordpress\<lparr>TxnRevno := 1\<rparr>) exampleState) =
     Some (None, wordpress\<lparr>Life := Dying\<rparr>, [Dying, Dying, Alive], [Dying])"
  using EnsureDying_contract [of mysql 0 exampleState mysql]
    EnsureDying_contract [of "mysql\<lparr>Life := Alive\<rparr>" 0 exampleState mysql]
    EnsureDying_contract [of wordpress 0 exampleState wordpress]
    EnsureDying_contract [of "wordpress\<lparr>TxnRevno := 1\<rparr>" 0 exampleState wordpress]
  by (simp add: example_defs relationsOf_def cascadeDying_def)

end
